theory Spec2Isabelle
  imports Complex_Main "HOL-Library.AList"
begin

section \<open>JavaScript values and failures\<close>

text \<open>
  Every value the route handler and the chat modal inspect comes out of a JSON document
  (a request body, an upstream reply, the text of a model answer once parsed), so the
  model's value type is the JSON data model. Strings are byte strings holding UTF-8;
  every character the code looks for (the braces, the words \<^verbatim>\<open>image\<close> and
  \<^verbatim>\<open>vision\<close>, white space) is found exactly at that level. A finite number is the
  rational that its shortest decimal form, the one \<^verbatim>\<open>JSON.stringify\<close> writes, denotes.
  \<open>JInf\<close> is the number \<^verbatim>\<open>Infinity\<close> (\<open>JInf True\<close> its negative) that
  \<^verbatim>\<open>JSON.parse\<close> gives for a literal beyond the range of a double, such as
  \<^verbatim>\<open>1e400\<close>; parsing never gives \<^verbatim>\<open>NaN\<close>. An object is the list of its entries in
  insertion order. The JavaScript value \<^verbatim>\<open>undefined\<close> is \<open>None\<close> of \<open>json option\<close>.
\<close>

datatype json =
    JNull
  | JBool bool
  | JNum rat
  | JInf bool
  | JStr string
  | JArr "json list"
  | JObj "(string \<times> json) list"

text \<open>
  A thrown value. \<open>TypeError\<close> and \<open>SyntaxError\<close> are raised by the platform (a property
  read on \<^verbatim>\<open>null\<close>, a call of something that is no function, a rejected
  \<^verbatim>\<open>fetch\<close>, unparseable JSON); \<open>Error\<close> is \<^verbatim>\<open>new Error(msg)\<close> of the
  source. Each carries its message.
\<close>

datatype js_error = TypeError string | SyntaxError string | Error string

fun error_message :: "js_error \<Rightarrow> string" where
  "error_message (TypeError m) = m"
| "error_message (SyntaxError m) = m"
| "error_message (Error m) = m"

text \<open>JavaScript truthiness, as \<^verbatim>\<open>!x\<close> and \<^verbatim>\<open>x || y\<close> test it.\<close>

fun truthy :: "json \<Rightarrow> bool" where
  "truthy JNull = False"
| "truthy (JBool b) = b"
| "truthy (JNum n) = (n \<noteq> 0)"
| "truthy (JInf negative) = True"
| "truthy (JStr s) = (s \<noteq> [])"
| "truthy (JArr xs) = True"
| "truthy (JObj kvs) = True"

definition truthy_opt :: "json option \<Rightarrow> bool" where
  "truthy_opt v = (case v of None \<Rightarrow> False | Some x \<Rightarrow> truthy x)"

text \<open>\<^verbatim>\<open>a || b\<close> on values.\<close>

definition or_else :: "json option \<Rightarrow> json \<Rightarrow> json" where
  "or_else a b = (case a of None \<Rightarrow> b | Some x \<Rightarrow> if truthy x then x else b)"

text \<open>
  \<open>field v k\<close> is the read \<^verbatim>\<open>v.k\<close> of a named property on a value other than
  \<^verbatim>\<open>null\<close>: the entry of an object, \<^verbatim>\<open>undefined\<close> on anything else. (The
  keys the source reads are never \<^verbatim>\<open>length\<close>, an index or a name inherited
  from a prototype.) \<open>get_prop\<close> adds the TypeError of a read on \<^verbatim>\<open>null\<close>.
\<close>

fun field :: "json \<Rightarrow> string \<Rightarrow> json option" where
  "field (JObj kvs) k = map_of kvs k"
| "field v k = None"

definition get_prop :: "json \<Rightarrow> string \<Rightarrow> js_error + json option" where
  "get_prop v k =
     (case v of
        JNull \<Rightarrow> Inl (TypeError ''Cannot read properties of null'')
      | _ \<Rightarrow> Inr (field v k))"

text \<open>\<open>first_elem v\<close> is the read \<^verbatim>\<open>v[0]\<close> on a value other than \<^verbatim>\<open>null\<close>.\<close>

fun first_elem :: "json \<Rightarrow> json option" where
  "first_elem (JArr xs) = (case xs of [] \<Rightarrow> None | x # _ \<Rightarrow> Some x)"
| "first_elem (JStr s) = (case s of [] \<Rightarrow> None | c # _ \<Rightarrow> Some (JStr [c]))"
| "first_elem (JObj kvs) = map_of kvs ''0''"
| "first_elem v = None"

text \<open>
  Optional chaining \<^verbatim>\<open>v?.k\<close>: \<^verbatim>\<open>undefined\<close> when \<open>v\<close> is
  \<^verbatim>\<open>undefined\<close> or \<^verbatim>\<open>null\<close>, the read otherwise.
\<close>

definition opt_chain :: "json option \<Rightarrow> (json \<Rightarrow> json option) \<Rightarrow> json option" where
  "opt_chain v f = (case v of None \<Rightarrow> None | Some JNull \<Rightarrow> None | Some x \<Rightarrow> f x)"

text \<open>\<^verbatim>\<open>data.choices?.[0]?.message?.content\<close>\<close>

definition choice_content :: "json \<Rightarrow> js_error + json option" where
  "choice_content data =
     (case get_prop data ''choices'' of
        Inl e \<Rightarrow> Inl e
      | Inr choices \<Rightarrow>
          Inr (opt_chain (opt_chain (opt_chain choices first_elem)
                 (\<lambda>c. field c ''message'')) (\<lambda>m. field m ''content'')))"

text \<open>\<^verbatim>\<open>String.prototype.includes\<close>: \<open>p\<close> occurs in \<open>s\<close> as a contiguous run.\<close>

primrec starts_with :: "string \<Rightarrow> string \<Rightarrow> bool" where
  "starts_with s [] = True"
| "starts_with s (p # ps) = (case s of [] \<Rightarrow> False | c # cs \<Rightarrow> c = p \<and> starts_with cs ps)"

primrec str_includes :: "string \<Rightarrow> string \<Rightarrow> bool" where
  "str_includes [] p = (p = [])"
| "str_includes (c # cs) p = (starts_with (c # cs) p \<or> str_includes cs p)"

text \<open>
  The call \<^verbatim>\<open>m.includes(p)\<close> on a value that is neither \<^verbatim>\<open>undefined\<close> nor
  \<^verbatim>\<open>null\<close>: the substring test on a string, membership on an array, and a
  TypeError on every other value, which has no such method.
\<close>

definition call_includes :: "json \<Rightarrow> string \<Rightarrow> js_error + bool" where
  "call_includes m p =
     (case m of
        JStr s \<Rightarrow> Inr (str_includes s p)
      | JArr xs \<Rightarrow> Inr (JStr p \<in> set xs)
      | _ \<Rightarrow> Inl (TypeError ''includes is not a function''))"

text \<open>\<^verbatim>\<open>errorData.error?.message?.includes(p)\<close>, as a truth value.\<close>

definition error_message_includes :: "json \<Rightarrow> string \<Rightarrow> js_error + bool" where
  "error_message_includes errorData p =
     (case get_prop errorData ''error'' of
        Inl e \<Rightarrow> Inl e
      | Inr err \<Rightarrow>
          (case opt_chain err (\<lambda>x. field x ''message'') of
             None \<Rightarrow> Inr False
           | Some JNull \<Rightarrow> Inr False
           | Some m \<Rightarrow> call_includes m p))"

text \<open>The test of line 67: the first call, and the second only when the first is false.\<close>

definition mentions_image_or_vision :: "json \<Rightarrow> js_error + bool" where
  "mentions_image_or_vision errorData =
     (case error_message_includes errorData ''image'' of
        Inl e \<Rightarrow> Inl e
      | Inr True \<Rightarrow> Inr True
      | Inr False \<Rightarrow> error_message_includes errorData ''vision'')"

text \<open>
  The match of \<^verbatim>\<open>/\{[\s\S]*\}/\<close>: the star is greedy and matches every character, so
  the match runs from the first opening brace to the last closing brace after it, and there
  is none when no closing brace follows the first opening one.
\<close>

definition match_braces :: "string \<Rightarrow> string option" where
  "match_braces s =
     (case dropWhile (\<lambda>c. c \<noteq> CHR ''{'') s of
        [] \<Rightarrow> None
      | b # rest \<Rightarrow>
          (case rev (dropWhile (\<lambda>c. c \<noteq> CHR ''}'') (rev rest)) of
             [] \<Rightarrow> None
           | inner \<Rightarrow> Some (b # inner)))"

text \<open>\<^verbatim>\<open>Number.prototype.toString\<close> on a natural number.\<close>

fun toString_nat :: "nat \<Rightarrow> string" where
  "toString_nat n =
     (if n < 10 then [char_of (48 + n)]
      else toString_nat (n div 10) @ [char_of (48 + n mod 10)])"

declare toString_nat.simps [simp del]

text \<open>
  String conversion of a value, as a template literal, \<^verbatim>\<open>Array.prototype.join\<close> and
  \<^verbatim>\<open>JSON.parse\<close> on a non-string do it; \<open>num\<close> writes a finite number. An object
  converts through its \<^verbatim>\<open>toString\<close>: the inherited one gives
  \<^verbatim>\<open>[object Object]\<close>, but an own entry of that name, which in a parsed value is never
  a function, hides it, and then the conversion throws a TypeError. An array converts by
  joining its elements with commas; \<^verbatim>\<open>join\<close> writes \<^verbatim>\<open>null\<close> as the empty
  string and converts every other element, so it throws where one of them does.
\<close>

fun js_string :: "(rat \<Rightarrow> string) \<Rightarrow> json \<Rightarrow> js_error + string"
  and js_join :: "(rat \<Rightarrow> string) \<Rightarrow> string \<Rightarrow> json list \<Rightarrow> js_error + string" where
  "js_string num JNull = Inr ''null''"
| "js_string num (JBool b) = Inr (if b then ''true'' else ''false'')"
| "js_string num (JNum n) = Inr (num n)"
| "js_string num (JInf negative) = Inr (if negative then ''-Infinity'' else ''Infinity'')"
| "js_string num (JStr s) = Inr s"
| "js_string num (JArr xs) = js_join num '','' xs"
| "js_string num (JObj kvs) =
     (case map_of kvs ''toString'' of
        None \<Rightarrow> Inr ''[object Object]''
      | Some v \<Rightarrow> Inl (TypeError ''Cannot convert object to primitive value''))"
| "js_join num sep [] = Inr []"
| "js_join num sep (x # xs) =
     (case (if x = JNull then Inr [] else js_string num x) of
        Inl e \<Rightarrow> Inl e
      | Inr s \<Rightarrow>
          (case js_join num sep xs of
             Inl e \<Rightarrow> Inl e
           | Inr rest \<Rightarrow> Inr (if xs = [] then s else s @ sep @ rest)))"

text \<open>
  What \<^verbatim>\<open>JSON.stringify\<close> makes of a value, read as JSON again: a number that is not
  finite is written \<^verbatim>\<open>null\<close>, everything else as it is.
\<close>

fun serialise :: "json \<Rightarrow> json" where
  "serialise (JInf negative) = JNull"
| "serialise (JArr xs) = JArr (map serialise xs)"
| "serialise (JObj kvs) = JObj (map (\<lambda>(k, v). (k, serialise v)) kvs)"
| "serialise v = v"

section \<open>Asynchronous code with effects\<close>

text \<open>
  A piece of asynchronous code is modelled by what it ends in (\<open>Inl\<close> a thrown value
  or rejection, \<open>Inr\<close> a result) together with the effects it has performed up to
  then, in order. The effects performed before a throw stay performed.
\<close>

type_synonym ('e, 'a) io = "(js_error + 'a) \<times> 'e list"

definition resolve :: "'a \<Rightarrow> ('e, 'a) io" where
  "resolve x = (Inr x, [])"

definition throw :: "js_error \<Rightarrow> ('e, 'a) io" where
  "throw e = (Inl e, [])"

definition pure_step :: "js_error + 'a \<Rightarrow> ('e, 'a) io" where
  "pure_step r = (r, [])"

definition perform :: "'e \<Rightarrow> js_error + 'a \<Rightarrow> ('e, 'a) io" where
  "perform ev outcome = (outcome, [ev])"

definition and_then :: "('e, 'a) io \<Rightarrow> ('a \<Rightarrow> ('e, 'b) io) \<Rightarrow> ('e, 'b) io" where
  "and_then m f =
     (case m of
        (Inl e, l) \<Rightarrow> (Inl e, l)
      | (Inr x, l) \<Rightarrow> (case f x of (r, l') \<Rightarrow> (r, l @ l')))"

definition try_catch :: "('e, 'a) io \<Rightarrow> (js_error \<Rightarrow> ('e, 'a) io) \<Rightarrow> ('e, 'a) io" where
  "try_catch m h =
     (case m of
        (Inl e, l) \<Rightarrow> (case h e of (r, l') \<Rightarrow> (r, l @ l'))
      | (Inr x, l) \<Rightarrow> (Inr x, l))"

section \<open>The image analysis route: \<^verbatim>\<open>src/app/api/plant-disease/route.ts\<close>\<close>

text \<open>
  What \<^verbatim>\<open>NextResponse.json(body, {status})\<close> hands to the caller: the status and the
  body as \<^verbatim>\<open>JSON.stringify\<close> has written it.
\<close>

record response =
  status :: nat
  body :: json

definition NextResponse_json :: "json \<Rightarrow> nat \<Rightarrow> response" where
  "NextResponse_json b s = \<lparr>status = s, body = serialise b\<rparr>"

text \<open>
  What a resolved \<^verbatim>\<open>fetch\<close> gives: the status, and what \<^verbatim>\<open>.json()\<close> on it
  ends in. \<^verbatim>\<open>response.ok\<close> is a status from 200 to 299.
\<close>

record fetch_response =
  http_status :: nat
  json_body :: "js_error + json"

definition ok :: "fetch_response \<Rightarrow> bool" where
  "ok r = (200 \<le> http_status r \<and> http_status r \<le> 299)"

text \<open>
  The three call sites of the upstream completion service. The two text calls name the
  language of the answer in their system prompt.
\<close>

datatype remote_call = VisionCall | TreatmentCall string | GuidanceCall string

text \<open>
  Everything outside the handler that one request meets: the request body as
  \<^verbatim>\<open>request.json()\<close> gives it, the environment variable, what each call site's
  \<^verbatim>\<open>fetch\<close> ends in (each site runs at most once per request), the clock, and
  the two built-ins \<^verbatim>\<open>JSON.parse\<close> and \<^verbatim>\<open>Number.prototype.toString\<close>.
\<close>

record env =
  request_json :: "js_error + json"
  GROQ_API_KEY :: "string option"
  vision_fetch :: "js_error + fetch_response"
  treatment_fetch :: "js_error + fetch_response"
  guidance_fetch :: "js_error + fetch_response"
  now_iso :: string
  JSON_parse :: "string \<Rightarrow> js_error + json"
  Number_string :: "rat \<Rightarrow> string"

text \<open>
  \<^verbatim>\<open>language === 'hi' ? 'Hindi' : language === 'kn' ? 'Kannada' : 'English'\<close>
\<close>

definition language_name :: "json \<Rightarrow> string" where
  "language_name language =
     (if language = JStr ''hi'' then ''Hindi''
      else if language = JStr ''kn'' then ''Kannada''
      else ''English'')"

text \<open>The two payloads of \<^verbatim>\<open>getFallbackAnalysis\<close> (lines 195--206 and 209--219).\<close>

definition guidance_payload :: "env \<Rightarrow> json \<Rightarrow> json option \<Rightarrow> json" where
  "guidance_payload env language guidanceContent =
     JObj [
       (''disease'', JStr ''Analysis Service - Use Guidance''),
       (''confidence'', JNum (6 / 10)),
       (''description'', JStr ''Direct image analysis is temporarily unavailable. Follow the guidance below to diagnose your plant.''),
       (''symptoms'', JArr [JStr ''Image upload successful'', JStr ''Please use the recommendations below'']),
       (''treatment'', JArr [JStr ''Upload a clear, well-lit image of affected leaf'',
                            JStr ''Include both affected and healthy parts'',
                            JStr ''Ensure good camera focus'']),
       (''prevention'', JArr [JStr ''Contact local Agricultural Department for precise diagnosis'']),
       (''aiGeneratedTreatment'',
          or_else guidanceContent (JStr ''Please try uploading your image again or contact your local Krishi Vigyan Kendra (KVK) for expert assistance.'')),
       (''fallbackMode'', JBool True),
       (''analysisTimestamp'', JStr (now_iso env)),
       (''language'', language)]"

definition unavailable_payload :: "env \<Rightarrow> json" where
  "unavailable_payload env =
     JObj [
       (''disease'', JStr ''Service Temporarily Unavailable''),
       (''confidence'', JNum 0),
       (''description'', JStr ''The AI plant disease analysis service is currently unavailable.''),
       (''symptoms'', JArr [JStr ''Service error - please try again later'']),
       (''treatment'', JArr [JStr ''Try uploading again in a few moments'',
                            JStr ''Contact your local Agricultural Department'']),
       (''prevention'', JArr []),
       (''aiGeneratedTreatment'', JStr ''For immediate assistance, please contact your nearest Krishi Vigyan Kendra (KVK) or Agricultural Extension Office in your district.''),
       (''fallbackMode'', JBool True),
       (''analysisTimestamp'', JStr (now_iso env))]"

text \<open>\<^verbatim>\<open>getFallbackAnalysis\<close> (lines 162--221).\<close>

definition getFallbackAnalysis :: "env \<Rightarrow> string \<Rightarrow> json \<Rightarrow> (remote_call, response) io" where
  "getFallbackAnalysis env groqApiKey language =
     try_catch
       (and_then (perform (GuidanceCall (language_name language)) (guidance_fetch env))
          (\<lambda>fallbackResponse.
        and_then (pure_step (json_body fallbackResponse))
          (\<lambda>fallbackData.
        and_then (pure_step (choice_content fallbackData))
          (\<lambda>guidanceContent.
        resolve (NextResponse_json (guidance_payload env language guidanceContent) 200)))))
       (\<lambda>fallbackError. resolve (NextResponse_json (unavailable_payload env) 200))"

text \<open>
  Lines 82--92: \<^verbatim>\<open>JSON.parse\<close> of the reply, which converts a reply that is no string
  to one first, and on a throw of either the parse of the brace match;
  \<^verbatim>\<open>.match\<close> exists on strings only.
\<close>

definition parse_text :: "env \<Rightarrow> json \<Rightarrow> js_error + json" where
  "parse_text env v =
     (case js_string (Number_string env) v of
        Inl e \<Rightarrow> Inl e
      | Inr s \<Rightarrow> JSON_parse env s)"

definition parse_analysis :: "env \<Rightarrow> json \<Rightarrow> js_error + json" where
  "parse_analysis env analysisContent =
     (case parse_text env analysisContent of
        Inr analysis \<Rightarrow> Inr analysis
      | Inl e \<Rightarrow>
          (case analysisContent of
             JStr s \<Rightarrow>
               (case match_braces s of
                  Some jsonMatch \<Rightarrow> JSON_parse env jsonMatch
                | None \<Rightarrow> Inl (Error ''Invalid response format''))
           | _ \<Rightarrow> Inl (TypeError ''analysisContent.match is not a function'')))"

text \<open>Lines 94--96: the structural check; it returns the analysis when it passes.\<close>

definition is_array :: "json option \<Rightarrow> bool" where
  "is_array v = (case v of Some (JArr xs) \<Rightarrow> True | _ \<Rightarrow> False)"

definition check_structure :: "json \<Rightarrow> js_error + json" where
  "check_structure analysis =
     (case get_prop analysis ''disease'' of
        Inl e \<Rightarrow> Inl e
      | Inr disease \<Rightarrow>
          if \<not> truthy_opt disease \<or> \<not> is_array (field analysis ''symptoms'')
          then Inl (Error ''Invalid analysis structure'')
          else Inr analysis)"

text \<open>
  Lines 136--141: the spread of the analysis, then the three keys written after it. A key
  the analysis already has keeps its place and takes the new value.
\<close>

fun entries :: "json \<Rightarrow> (string \<times> json) list" where
  "entries (JObj kvs) = kvs"
| "entries (JArr xs) = zip (map toString_nat [0 ..< length xs]) xs"
| "entries (JStr s) = zip (map toString_nat [0 ..< length s]) (map (\<lambda>c. JStr [c]) s)"
| "entries v = []"

definition enhancedAnalysis :: "env \<Rightarrow> json \<Rightarrow> json option \<Rightarrow> json \<Rightarrow> json" where
  "enhancedAnalysis env analysis treatmentContent language =
     JObj (AList.update ''language'' language
            (AList.update ''analysisTimestamp'' (JStr (now_iso env))
              (AList.update ''aiGeneratedTreatment''
                 (or_else treatmentContent (JStr []))
                 (entries analysis))))"

text \<open>
  Lines 122--125: the user message of the narrative request. The template literal converts
  \<^verbatim>\<open>analysis.disease\<close> to a string and joins \<^verbatim>\<open>analysis.symptoms\<close>; either
  throws a TypeError where the conversion does. (The other request bodies hold the image,
  the language and fixed text, and \<^verbatim>\<open>JSON.stringify\<close> does not throw on parsed values.)
\<close>

definition narrative_prompt :: "env \<Rightarrow> json \<Rightarrow> js_error + string" where
  "narrative_prompt env analysis =
     (case (case field analysis ''disease'' of
              None \<Rightarrow> Inr ''undefined''
            | Some d \<Rightarrow> js_string (Number_string env) d) of
        Inl e \<Rightarrow> Inl e
      | Inr disease \<Rightarrow>
          (case field analysis ''symptoms'' of
             Some (JArr xs) \<Rightarrow>
               (case js_join (Number_string env) '', '' xs of
                  Inl e \<Rightarrow> Inl e
                | Inr symptoms \<Rightarrow>
                    Inr (''Disease: '' @ disease @ [CHR 0x0A] @ ''Symptoms: '' @ symptoms @
                         [CHR 0x0A, CHR 0x0A] @
                         ''Provide practical treatment and prevention advice suitable for Karnataka farmers.''))
           | _ \<Rightarrow> Inl (TypeError ''analysis.symptoms.join is not a function'')))"

text \<open>
  The body of the inner \<^verbatim>\<open>try\<close> (lines 18--143). The call of line 69 is returned
  without \<^verbatim>\<open>await\<close>, so a rejection of it would pass by both \<^verbatim>\<open>catch\<close> blocks;
  there is none, since \<^verbatim>\<open>getFallbackAnalysis\<close> catches whatever it throws.
\<close>

definition vision_tier :: "env \<Rightarrow> string \<Rightarrow> json \<Rightarrow> (remote_call, response) io" where
  "vision_tier env groqApiKey language =
     and_then (perform VisionCall (vision_fetch env))
       (\<lambda>response.
     if \<not> ok response then
       and_then (pure_step (json_body response))
         (\<lambda>errorData.
       and_then (pure_step (mentions_image_or_vision errorData))
         (\<lambda>unsupported.
       if unsupported then getFallbackAnalysis env groqApiKey language
       else throw (Error (''Groq API error: '' @ toString_nat (http_status response)))))
     else
       and_then (pure_step (json_body response))
         (\<lambda>data.
       and_then (pure_step (choice_content data))
         (\<lambda>analysisContent.
       case analysisContent of
         None \<Rightarrow> throw (Error ''No content in response'')
       | Some content \<Rightarrow>
           if \<not> truthy content then throw (Error ''No content in response'')
           else
             and_then (pure_step (parse_analysis env content))
               (\<lambda>parsed.
             and_then (pure_step (check_structure parsed))
               (\<lambda>analysis.
             and_then (pure_step (narrative_prompt env analysis))
               (\<lambda>prompt.
             and_then (perform (TreatmentCall (language_name language)) (treatment_fetch env))
               (\<lambda>treatmentResponse.
             and_then (pure_step (json_body treatmentResponse))
               (\<lambda>treatmentData.
             and_then (pure_step (choice_content treatmentData))
               (\<lambda>treatmentContent.
             resolve (NextResponse_json
                        (enhancedAnalysis env analysis treatmentContent language) 200))))))))))"

text \<open>
  Line 5: \<^verbatim>\<open>const { imageBase64, language = 'en' } = await request.json()\<close>.
  Destructuring \<^verbatim>\<open>null\<close> throws; the default stands in for an absent
  \<^verbatim>\<open>language\<close> only.
\<close>

definition language_of :: "json \<Rightarrow> json" where
  "language_of b = (case field b ''language'' of None \<Rightarrow> JStr ''en'' | Some l \<Rightarrow> l)"

definition destructure :: "json \<Rightarrow> js_error + (json option \<times> json)" where
  "destructure b =
     (case get_prop b ''imageBase64'' of
        Inl e \<Rightarrow> Inl e
      | Inr imageBase64 \<Rightarrow> Inr (imageBase64, language_of b))"

text \<open>\<^verbatim>\<open>POST\<close> (lines 3--159).\<close>

definition POST :: "env \<Rightarrow> (remote_call, response) io" where
  "POST env =
     try_catch
       (and_then (pure_step (request_json env))
          (\<lambda>requestBody.
        and_then (pure_step (destructure requestBody))
          (\<lambda>(imageBase64, language).
        if \<not> truthy_opt imageBase64 then
          resolve (NextResponse_json (JObj [(''error'', JStr ''No image provided'')]) 400)
        else
          case GROQ_API_KEY env of
            None \<Rightarrow>
              resolve (NextResponse_json (JObj [(''error'', JStr ''Groq API key not configured'')]) 500)
          | Some groqApiKey \<Rightarrow>
              if groqApiKey = [] then
                resolve (NextResponse_json (JObj [(''error'', JStr ''Groq API key not configured'')]) 500)
              else
                try_catch (vision_tier env groqApiKey language)
                  (\<lambda>groqError. getFallbackAnalysis env groqApiKey language))))
       (\<lambda>error.
          resolve (NextResponse_json
                     (JObj [(''error'', JStr ''Analysis service temporarily unavailable''),
                            (''details'', JStr (error_message error))]) 500))"

section \<open>The chat modal: \<^verbatim>\<open>AICallAgentModal\<close>\<close>

text \<open>
  \<^verbatim>\<open>String.prototype.trim\<close> strips the white space and line terminators of
  ECMAScript from both ends. On UTF-8 these are the following byte sequences: the six of
  ASCII, U+00A0, U+1680, U+2000 to U+200A, U+2028, U+2029, U+202F, U+205F, U+3000 and
  U+FEFF.
\<close>

definition white_space :: "string list" where
  "white_space =
     [ [CHR 0x09], [CHR 0x0A], [CHR 0x0B], [CHR 0x0C], [CHR 0x0D], [CHR 0x20],
      [CHR 0xC2, CHR 0xA0],
      [CHR 0xE1, CHR 0x9A, CHR 0x80],
      [CHR 0xE2, CHR 0x80, CHR 0x80], [CHR 0xE2, CHR 0x80, CHR 0x81],
      [CHR 0xE2, CHR 0x80, CHR 0x82], [CHR 0xE2, CHR 0x80, CHR 0x83],
      [CHR 0xE2, CHR 0x80, CHR 0x84], [CHR 0xE2, CHR 0x80, CHR 0x85],
      [CHR 0xE2, CHR 0x80, CHR 0x86], [CHR 0xE2, CHR 0x80, CHR 0x87],
      [CHR 0xE2, CHR 0x80, CHR 0x88], [CHR 0xE2, CHR 0x80, CHR 0x89],
      [CHR 0xE2, CHR 0x80, CHR 0x8A],
      [CHR 0xE2, CHR 0x80, CHR 0xA8], [CHR 0xE2, CHR 0x80, CHR 0xA9],
      [CHR 0xE2, CHR 0x80, CHR 0xAF],
      [CHR 0xE2, CHR 0x81, CHR 0x9F],
      [CHR 0xE3, CHR 0x80, CHR 0x80],
      [CHR 0xEF, CHR 0xBB, CHR 0xBF] ]"

text \<open>\<open>strip_any ws s\<close> removes from the front of \<open>s\<close> the first of \<open>ws\<close> it starts with.\<close>

primrec strip_any :: "string list \<Rightarrow> string \<Rightarrow> string option" where
  "strip_any [] s = None"
| "strip_any (w # ws) s =
     (if w \<noteq> [] \<and> starts_with s w then Some (drop (length w) s) else strip_any ws s)"

function strip_all :: "string list \<Rightarrow> string \<Rightarrow> string" where
  "strip_all ws s = (case strip_any ws s of None \<Rightarrow> s | Some rest \<Rightarrow> strip_all ws rest)"
  by pat_completeness auto
termination
proof (relation "measure (\<lambda>(ws, s). length s)")
  show "wf (measure (\<lambda>(ws, s). length s))" by simp
next
  fix ws :: "string list" and s rest :: string
  assume "strip_any ws s = Some rest"
  then have "length rest < length s"
  proof (induction ws)
    case Nil
    then show ?case by simp
  next
    case (Cons w ws)
    show ?case
    proof (cases "w \<noteq> [] \<and> starts_with s w")
      case True
      with Cons.prems have rest: "rest = drop (length w) s" by simp
      from True have "s \<noteq> []" by (cases w; cases s) auto
      with True rest show ?thesis by simp
    next
      case False
      with Cons show ?thesis by auto
    qed
  qed
  then show "((ws, rest), (ws, s)) \<in> measure (\<lambda>(ws, s). length s)" by simp
qed

declare strip_all.simps [simp del]

definition trimStart :: "string \<Rightarrow> string" where
  "trimStart s = strip_all white_space s"

definition trimEnd :: "string \<Rightarrow> string" where
  "trimEnd s = rev (strip_all (map rev white_space) (rev s))"

definition trim :: "string \<Rightarrow> string" where
  "trim s = trimEnd (trimStart s)"

text \<open>
  A \<^verbatim>\<open>finally\<close> block that returns nothing: it runs, and the outcome of the
  \<^verbatim>\<open>try\<close> stands unless the block itself throws.
\<close>

definition try_finally :: "('e, 'a) io \<Rightarrow> ('e, unit) io \<Rightarrow> ('e, 'a) io" where
  "try_finally m f =
     (case m of (r, l) \<Rightarrow>
        (case f of
           (Inl e, l') \<Rightarrow> (Inl e, l @ l')
         | (Inr u, l') \<Rightarrow> (r, l @ l')))"

datatype role = User | Assistant

record message =
  message_id :: string
  role :: role
  content :: json
  timestamp :: nat

text \<open>The component state: the \<^verbatim>\<open>useState\<close> cells of lines 259--263.\<close>

record chat_state =
  messages :: "message list"
  input :: string
  isLoading :: bool
  isMuted :: bool
  isListening :: bool

text \<open>
  What the handlers do to the outside, in order: the queued state updates
  (\<^verbatim>\<open>setMessages((prev) => [...prev, m])\<close>, \<^verbatim>\<open>setInput\<close>,
  \<^verbatim>\<open>setIsLoading\<close>, \<^verbatim>\<open>setIsListening\<close>), the request to
  \<^verbatim>\<open>/api/groq-query\<close> with its query and language, and the two calls on
  \<^verbatim>\<open>window.speechSynthesis\<close>.
\<close>

datatype action =
    SetMessages message
  | SetInput string
  | SetIsLoading bool
  | SetIsListening bool
  | FetchGroqQuery string string
  | SpeechCancel
  | SpeechSpeak json string

text \<open>React applies the queued updates in order; the other effects leave the state alone.\<close>

fun apply_action :: "chat_state \<Rightarrow> action \<Rightarrow> chat_state" where
  "apply_action st (SetMessages m) = st\<lparr>messages := messages st @ [m]\<rparr>"
| "apply_action st (SetInput s) = st\<lparr>input := s\<rparr>"
| "apply_action st (SetIsLoading b) = st\<lparr>isLoading := b\<rparr>"
| "apply_action st (SetIsListening b) = st\<lparr>isListening := b\<rparr>"
| "apply_action st a = st"

definition apply_actions :: "chat_state \<Rightarrow> action list \<Rightarrow> chat_state" where
  "apply_actions st as = foldl apply_action st as"

text \<open>The messages a run of effects appends to the transcript, in order.\<close>

fun appended :: "action list \<Rightarrow> message list" where
  "appended [] = []"
| "appended (SetMessages m # as) = m # appended as"
| "appended (a # as) = appended as"

text \<open>
  What one submission meets: the \<^verbatim>\<open>locale\<close> prop, the clock when the user turn
  and when the assistant turn is built, what the \<^verbatim>\<open>fetch\<close> ends in, and what
  constructing the utterance throws where speech synthesis is missing.
\<close>

record chat_env =
  ui_locale :: string
  now_submit :: nat
  now_reply :: nat
  groq_query_fetch :: "js_error + fetch_response"
  utterance_failure :: "js_error option"

definition getLanguageCode :: "string \<Rightarrow> string" where
  "getLanguageCode loc =
     (case map_of [(''en'', ''en-US''), (''hi'', ''hi-IN''), (''kn'', ''kn-IN''),
                   (''ta'', ''ta-IN''), (''te'', ''te-IN''), (''bn'', ''bn-IN''),
                   (''ml'', ''ml-IN''), (''ur'', ''ur-IN'')] loc of
        Some code \<Rightarrow> code
      | None \<Rightarrow> ''en-US'')"

text \<open>
  \<^verbatim>\<open>speakText\<close>: everything runs inside its own \<^verbatim>\<open>try\<close>, also the
  \<^verbatim>\<open>text.substring\<close> of the log line, which only a string has.
\<close>

definition speakText :: "chat_env \<Rightarrow> json \<Rightarrow> (action, unit) io" where
  "speakText env text =
     try_catch
       (and_then (pure_step (case utterance_failure env of None \<Rightarrow> Inr () | Some e \<Rightarrow> Inl e))
          (\<lambda>utterance.
        and_then (perform SpeechCancel (Inr ()))
          (\<lambda>u.
        and_then (perform (SpeechSpeak text (getLanguageCode (ui_locale env))) (Inr ()))
          (\<lambda>u.
        case text of
          JStr s \<Rightarrow> resolve ()
        | _ \<Rightarrow> throw (TypeError ''text.substring is not a function'')))))
       (\<lambda>error. resolve ())"

text \<open>
  \<^verbatim>\<open>submitMessage\<close> (lines 358--415). It is a \<^verbatim>\<open>useCallback\<close> closure: the
  \<^verbatim>\<open>isLoading\<close> and \<^verbatim>\<open>isMuted\<close> it reads are those of the render in which it
  was made, and \<open>st\<close> is the state of that render. Its state updates are queued and
  land on whatever the state is by then.
\<close>

definition submitMessage :: "chat_env \<Rightarrow> chat_state \<Rightarrow> string \<Rightarrow> (action, unit) io" where
  "submitMessage env st messageText =
     (if trim messageText = [] \<or> isLoading st then resolve ()
      else
        and_then (perform (SetMessages \<lparr>message_id = toString_nat (now_submit env), role = User,
                                        content = JStr messageText, timestamp = now_submit env\<rparr>) (Inr ()))
          (\<lambda>u.
        and_then (perform (SetInput []) (Inr ()))
          (\<lambda>u.
        and_then (perform (SetIsLoading True) (Inr ()))
          (\<lambda>u.
        try_finally
          (try_catch
             (and_then (perform (FetchGroqQuery messageText (ui_locale env)) (groq_query_fetch env))
                (\<lambda>response.
              if \<not> ok response then throw (Error ''API call failed'')
              else
                and_then (pure_step (json_body response))
                  (\<lambda>data.
                and_then (pure_step (get_prop data ''response''))
                  (\<lambda>data_response.
                and_then (perform (SetMessages
                            \<lparr>message_id = toString_nat (now_reply env + 1), role = Assistant,
                             content = or_else data_response (JStr ''No response from AI''),
                             timestamp = now_reply env\<rparr>) (Inr ()))
                  (\<lambda>u.
                if \<not> isMuted st \<and> truthy_opt data_response
                then speakText env (or_else data_response JNull)
                else resolve ())))))
             (\<lambda>error.
                perform (SetMessages
                           \<lparr>message_id = toString_nat (now_reply env + 2), role = Assistant,
                            content = JStr ''Sorry, there was an error. Please try again.'',
                            timestamp = now_reply env\<rparr>) (Inr ())))
          (perform (SetIsLoading False) (Inr ()))))))"

text \<open>
  \<^verbatim>\<open>handleSendMessage\<close> (lines 417--419) is made anew in every render: it calls that
  render's \<^verbatim>\<open>submitMessage\<close> on that render's \<^verbatim>\<open>input\<close>.
\<close>

definition handleSendMessage :: "chat_env \<Rightarrow> chat_state \<Rightarrow> (action, unit) io" where
  "handleSendMessage env st = submitMessage env st (input st)"

text \<open>
  \<^verbatim>\<open>recognition.onresult\<close> (lines 291--312), given the transcript it has put together.
  The handler is made inside the effect of lines 269--337, whose dependencies are
  \<^verbatim>\<open>[isOpen, locale]\<close> only, so the \<^verbatim>\<open>submitMessage\<close> it calls is the one of the
  render in which that effect last ran; \<open>effect_st\<close> is the state of that render. The call
  is deferred by 300 ms and so comes after \<^verbatim>\<open>setIsListening(false)\<close>.
\<close>

definition onresult :: "chat_env \<Rightarrow> chat_state \<Rightarrow> string \<Rightarrow> (action, unit) io" where
  "onresult env effect_st finalTranscript =
     (if trim finalTranscript \<noteq> [] then
        and_then (perform (SetInput (trim finalTranscript)) (Inr ()))
          (\<lambda>u.
        and_then (perform (SetIsListening False) (Inr ()))
          (\<lambda>u.
        submitMessage env effect_st (trim finalTranscript)))
      else perform (SetIsListening False) (Inr ()))"

section \<open>Shapes and outcomes the properties speak about\<close>

text \<open>
  The record of an analysis as the data model has it: \<^verbatim>\<open>disease\<close>,
  \<^verbatim>\<open>description\<close> and \<^verbatim>\<open>aiGeneratedTreatment\<close> texts, \<^verbatim>\<open>confidence\<close> a number
  from 0 to 1, \<^verbatim>\<open>symptoms\<close>, \<^verbatim>\<open>treatment\<close> and \<^verbatim>\<open>prevention\<close> sequences of
  texts, an \<^verbatim>\<open>analysisTimestamp\<close> and a \<^verbatim>\<open>language\<close>, both written as texts by
  the handler, and \<^verbatim>\<open>fallbackMode\<close> a boolean, which a full answer may leave out.
\<close>

definition is_number :: "json option \<Rightarrow> bool" where
  "is_number v = (case v of Some (JNum n) \<Rightarrow> True | Some (JInf negative) \<Rightarrow> True | _ \<Rightarrow> False)"




text \<open>
  The guidance call raises inside \<^verbatim>\<open>getFallbackAnalysis\<close> when the
  \<^verbatim>\<open>fetch\<close> rejects, when the body cannot be read as JSON, and when the body is
  \<^verbatim>\<open>null\<close> (the read of \<^verbatim>\<open>choices\<close> then throws).
\<close>

definition guidance_call_raises :: "env \<Rightarrow> bool" where
  "guidance_call_raises env =
     (case guidance_fetch env of
        Inl e \<Rightarrow> True
      | Inr r \<Rightarrow> (case json_body r of Inl e \<Rightarrow> True | Inr d \<Rightarrow> d = JNull))"

text \<open>
  A request without an image payload: its body cannot be read as JSON, or is a value with no
  \<^verbatim>\<open>imageBase64\<close> (as \<^verbatim>\<open>null\<close> is), or has an empty one.
\<close>

definition lacks_image :: "env \<Rightarrow> bool" where
  "lacks_image env =
     (case request_json env of
        Inl e \<Rightarrow> True
      | Inr b \<Rightarrow> field b ''imageBase64'' = None \<or> field b ''imageBase64'' = Some (JStr []))"

text \<open>The chat request failed in transport or was answered with a status outside 200--299.\<close>

definition chat_call_failed :: "chat_env \<Rightarrow> bool" where
  "chat_call_failed env = (case groq_query_fetch env of Inl e \<Rightarrow> True | Inr r \<Rightarrow> \<not> ok r)"

section \<open>Example executions\<close>

text \<open>
  A chat-completion reply carrying \<open>c\<close> as its content, and the error body the
  completion service sends with a status outside 200--299.
\<close>

definition completion :: "json \<Rightarrow> json" where
  "completion c =
     JObj [(''choices'',
            JArr [JObj [(''index'', JNum 0),
                        (''message'', JObj [(''role'', JStr ''assistant''), (''content'', c)])] ])]"

definition api_error :: "string \<Rightarrow> json" where
  "api_error m = JObj [(''error'', JObj [(''message'', JStr m), (''type'', JStr ''api_error'')])]"

definition replied :: "nat \<Rightarrow> json \<Rightarrow> js_error + fetch_response" where
  "replied s b = Inr \<lparr>http_status = s, json_body = Inr b\<rparr>"

text \<open>Four model answers and what \<^verbatim>\<open>JSON.parse\<close> makes of the three that are JSON.\<close>

definition leaf_blight_text :: string where
  \<open>leaf_blight_text = ''{"disease":"Leaf Blight","confidence":0.9,"symptoms":["yellow spots"],"treatment":["fungicide"],"prevention":["rotate crops"]}''\<close>

definition leaf_blight :: json where
  "leaf_blight =
     JObj [(''disease'', JStr ''Leaf Blight''), (''confidence'', JNum (9 / 10)),
           (''symptoms'', JArr [JStr ''yellow spots'']),
           (''treatment'', JArr [JStr ''fungicide'']),
           (''prevention'', JArr [JStr ''rotate crops''])]"

definition bare_text :: string where
  \<open>bare_text = ''{"disease":"Rust","symptoms":[]}''\<close>

definition bare :: json where
  "bare = JObj [(''disease'', JStr ''Rust''), (''symptoms'', JArr [])]"

definition vague_text :: string where
  \<open>vague_text = ''{"disease":"Rust","confidence":"high","symptoms":["pustules"]}''\<close>

definition vague :: json where
  "vague = JObj [(''disease'', JStr ''Rust''), (''confidence'', JStr ''high''),
                 (''symptoms'', JArr [JStr ''pustules''])]"

definition scalar_text :: string where
  \<open>scalar_text = ''{"disease":"Rust","symptoms":"brown pustules"}''\<close>

definition scalar :: json where
  "scalar = JObj [(''disease'', JStr ''Rust''), (''symptoms'', JStr ''brown pustules'')]"

definition prose_text :: string where
  "prose_text = ''The leaf in this picture looks healthy to me.''"

definition example_parse :: "string \<Rightarrow> js_error + json" where
  "example_parse s =
     (if s = leaf_blight_text then Inr leaf_blight
      else if s = bare_text then Inr bare
      else if s = vague_text then Inr vague
      else if s = scalar_text then Inr scalar
      else Inl (SyntaxError ''Unexpected token''))"

text \<open>
  A request with an image, a configured key, and all three upstream calls answering. No
  number is converted to a string in these executions; the conversion given is the one of
  the natural numbers.
\<close>

definition example_body :: json where
  "example_body = JObj [(''imageBase64'', JStr ''data:image/png;base64,iVBORw0KGgo=''),
                        (''language'', JStr ''en'')]"

definition example_env :: env where
  "example_env =
     \<lparr>request_json = Inr example_body,
      GROQ_API_KEY = Some ''gsk_example'',
      vision_fetch = replied 200 (completion (JStr leaf_blight_text)),
      treatment_fetch = replied 200 (completion (JStr ''Spray a copper fungicide.'')),
      guidance_fetch = replied 200 (completion (JStr ''Check the leaves for spots.'')),
      now_iso = ''2026-01-01T00:00:00.000Z'',
      JSON_parse = example_parse,
      Number_string = (\<lambda>n. toString_nat (nat (floor n)))\<rparr>"

definition example_chat_env :: chat_env where
  "example_chat_env =
     \<lparr>ui_locale = ''en'', now_submit = 1000, now_reply = 2000,
      groq_query_fetch = replied 200 (JObj [(''response'', JStr ''Water in the morning.'')]),
      utterance_failure = None\<rparr>"

text \<open>
  The state of the first render (the initial values of lines 259--263), in which the effect
  runs when the modal is mounted open, and the state after a question has been typed.
\<close>

definition initial_chat_state :: chat_state where
  "initial_chat_state =
     \<lparr>messages = [], input = [], isLoading = False, isMuted = False, isListening = False\<rparr>"

definition example_chat_state :: chat_state where
  "example_chat_state = initial_chat_state\<lparr>input := ''When to water?''\<rparr>"

text \<open>
  The state while the request of a first submission is under way: the effects of
  \<^verbatim>\<open>handleSendMessage\<close> up to the \<^verbatim>\<open>fetch\<close> it awaits (the user turn, the
  cleared input, the busy flag, the request), applied to the state it was called in.
\<close>

definition in_flight_state :: chat_state where
  "in_flight_state =
     apply_actions example_chat_state
       (take 4 (snd (handleSendMessage example_chat_env example_chat_state)))"

text \<open>The state once that submission has run to its end: all its effects applied.\<close>

definition settled_state :: chat_state where
  "settled_state =
     apply_actions example_chat_state (snd (handleSendMessage example_chat_env example_chat_state))"

section \<open>Running the effect combinators\<close>

lemma and_then_pure: "and_then (pure_step r) f = (case r of Inl e \<Rightarrow> (Inl e, []) | Inr x \<Rightarrow> f x)"
  by (simp add: and_then_def pure_step_def split: sum.splits prod.splits)

lemma and_then_perform:
  "and_then (perform ev r) f =
     (case r of Inl e \<Rightarrow> (Inl e, [ev]) | Inr x \<Rightarrow> (fst (f x), ev # snd (f x)))"
  by (simp add: and_then_def perform_def split: sum.splits prod.splits)

lemma try_catch_Inl: "try_catch (Inl e, l) h = (fst (h e), l @ snd (h e))"
  by (simp add: try_catch_def split: prod.splits)

lemma try_catch_Inr: "try_catch (Inr x, l) h = (Inr x, l)"
  by (simp add: try_catch_def)

section \<open>What serialisation keeps\<close>

lemma field_serialise: "field (serialise v) k = map_option serialise (field v k)"
proof (cases v)
  case (JObj kvs)
  have "map_of (map (\<lambda>(k, v). (k, serialise v)) kvs) k = map_option serialise (map_of kvs k)"
    by (induction kvs) auto
  with JObj show ?thesis by simp
qed simp_all

lemma serialise_unavailable: "serialise (unavailable_payload env) = unavailable_payload env"
  by (simp add: unavailable_payload_def)


lemma serialise_guidance_text:
  "serialise (guidance_payload env (JStr l) None) = guidance_payload env (JStr l) None"
  "serialise (guidance_payload env (JStr l) (Some (JStr c))) =
     guidance_payload env (JStr l) (Some (JStr c))"
  by (simp_all add: guidance_payload_def or_else_def)

lemma serialise_error_body:
  "serialise (JObj [(''error'', JStr m)]) = JObj [(''error'', JStr m)]"
  "serialise (JObj [(''error'', JStr m), (''details'', JStr d)])
     = JObj [(''error'', JStr m), (''details'', JStr d)]"
  by simp_all

section \<open>The fallback tier always answers\<close>

lemma getFallbackAnalysis_raises:
  "guidance_call_raises env \<Longrightarrow>
   getFallbackAnalysis env k l =
     (Inr (NextResponse_json (unavailable_payload env) 200), [GuidanceCall (language_name l)])"
  unfolding getFallbackAnalysis_def guidance_call_raises_def
  by (auto simp: and_then_perform and_then_pure try_catch_Inl try_catch_Inr resolve_def
        choice_content_def get_prop_def split: sum.splits)

lemma getFallbackAnalysis_completes:
  "guidance_fetch env = Inr r \<Longrightarrow> json_body r = Inr d \<Longrightarrow> choice_content d = Inr c \<Longrightarrow>
   getFallbackAnalysis env k l =
     (Inr (NextResponse_json (guidance_payload env l c) 200), [GuidanceCall (language_name l)])"
  unfolding getFallbackAnalysis_def
  by (simp add: and_then_perform and_then_pure try_catch_Inr resolve_def)

lemma not_raises_D:
  "\<not> guidance_call_raises env \<Longrightarrow>
   \<exists>r d c. guidance_fetch env = Inr r \<and> json_body r = Inr d \<and> choice_content d = Inr c"
  unfolding guidance_call_raises_def
  by (auto simp: choice_content_def get_prop_def split: sum.splits json.splits)

lemma field_fallbackMode_guidance:
  "field (guidance_payload env l c) ''fallbackMode'' = Some (JBool True)"
  by (simp add: guidance_payload_def)

lemma field_fallbackMode_unavailable:
  "field (unavailable_payload env) ''fallbackMode'' = Some (JBool True)"
  by (simp add: unavailable_payload_def)

lemma unavailable_fields:
  "field (unavailable_payload env) ''disease'' = Some (JStr ''Service Temporarily Unavailable'')"
  "field (unavailable_payload env) ''confidence'' = Some (JNum 0)"
  "field (unavailable_payload env) ''symptoms'' = Some (JArr [JStr ''Service error - please try again later''])"
  "field (unavailable_payload env) ''aiGeneratedTreatment'' = Some (JStr ''For immediate assistance, please contact your nearest Krishi Vigyan Kendra (KVK) or Agricultural Extension Office in your district.'')"
  "field (unavailable_payload env) ''analysisTimestamp'' = Some (JStr (now_iso env))"
  "field (unavailable_payload env) ''language'' = None"
  by (simp_all add: unavailable_payload_def)

lemma guidance_fields:
  "field (guidance_payload env l c) ''disease'' = Some (JStr ''Analysis Service - Use Guidance'')"
  "field (guidance_payload env l c) ''confidence'' = Some (JNum (6 / 10))"
  "field (guidance_payload env l c) ''symptoms'' =
     Some (JArr [JStr ''Image upload successful'', JStr ''Please use the recommendations below''])"
  "field (guidance_payload env l c) ''aiGeneratedTreatment'' =
     Some (or_else c (JStr ''Please try uploading your image again or contact your local Krishi Vigyan Kendra (KVK) for expert assistance.''))"
  "field (guidance_payload env l c) ''analysisTimestamp'' = Some (JStr (now_iso env))"
  "field (guidance_payload env l c) ''language'' = Some l"
  by (simp_all add: guidance_payload_def)

lemma serialised_guidance_fields:
  "field (serialise (guidance_payload env l c)) ''fallbackMode'' = Some (JBool True)"
  "field (serialise (guidance_payload env l c)) ''disease'' = Some (JStr ''Analysis Service - Use Guidance'')"
  "field (serialise (guidance_payload env l c)) ''confidence'' = Some (JNum (6 / 10))"
  "field (serialise (guidance_payload env l c)) ''symptoms'' =
     Some (JArr [JStr ''Image upload successful'', JStr ''Please use the recommendations below''])"
  "field (serialise (guidance_payload env l c)) ''analysisTimestamp'' = Some (JStr (now_iso env))"
  "field (serialise (guidance_payload env l c)) ''aiGeneratedTreatment'' \<noteq> None"
  by (simp_all add: field_serialise guidance_fields field_fallbackMode_guidance)

text \<open>
  The tier of the answer goes with the way the guidance call ends: the hardcoded payload when
  it raises, the guidance payload when it completes.
\<close>

lemma fallback_by_tier:
  "\<exists>p. getFallbackAnalysis env k l =
          (Inr \<lparr>status = 200, body = p\<rparr>, [GuidanceCall (language_name l)]) \<and>
       (if guidance_call_raises env then p = unavailable_payload env
        else \<exists>c. p = serialise (guidance_payload env l c))"
proof (cases "guidance_call_raises env")
  case True
  then show ?thesis
    by (simp add: getFallbackAnalysis_raises NextResponse_json_def serialise_unavailable)
next
  case False
  then obtain r d c where "guidance_fetch env = Inr r" "json_body r = Inr d"
    "choice_content d = Inr c"
    using not_raises_D by blast
  then have "getFallbackAnalysis env k l =
     (Inr (NextResponse_json (guidance_payload env l c) 200), [GuidanceCall (language_name l)])"
    by (rule getFallbackAnalysis_completes)
  with False show ?thesis
    by (auto simp: NextResponse_json_def)
qed

lemma fallback_outcome:
  "\<exists>p. getFallbackAnalysis env k l =
          (Inr \<lparr>status = 200, body = p\<rparr>, [GuidanceCall (language_name l)]) \<and>
       field p ''fallbackMode'' = Some (JBool True) \<and>
       (p = unavailable_payload env \<or> (\<exists>c. p = serialise (guidance_payload env l c)))"
proof (cases "guidance_call_raises env")
  case True
  then show ?thesis
    by (simp add: getFallbackAnalysis_raises NextResponse_json_def field_fallbackMode_unavailable
          serialise_unavailable)
next
  case False
  then obtain r d c where "guidance_fetch env = Inr r" "json_body r = Inr d"
    "choice_content d = Inr c"
    using not_raises_D by blast
  then have "getFallbackAnalysis env k l =
     (Inr (NextResponse_json (guidance_payload env l c) 200), [GuidanceCall (language_name l)])"
    by (rule getFallbackAnalysis_completes)
  then show ?thesis
    by (auto simp: NextResponse_json_def serialised_guidance_fields)
qed

section \<open>From the request to the vision tier\<close>

lemma inner_try_total:
  "\<exists>r l. try_catch (vision_tier env k lang) (\<lambda>groqError. getFallbackAnalysis env k lang) = (Inr r, l)"
proof (cases "vision_tier env k lang")
  case (Pair a l)
  show ?thesis
  proof (cases a)
    case (Inl e)
    with Pair fallback_outcome [of env k lang] show ?thesis
      by (auto simp: try_catch_Inl)
  next
    case (Inr r)
    with Pair show ?thesis by (simp add: try_catch_Inr)
  qed
qed

lemma field_Some_obj: "field b k = Some v \<Longrightarrow> \<exists>kvs. b = JObj kvs"
  by (cases b) simp_all

lemma POST_reaches_analysis:
  assumes "request_json env = Inr b" "field b ''imageBase64'' = Some img" "truthy img"
    "GROQ_API_KEY env = Some k" "k \<noteq> []"
  shows "POST env = try_catch (vision_tier env k (language_of b))
                      (\<lambda>groqError. getFallbackAnalysis env k (language_of b))"
proof -
  obtain kvs where b: "b = JObj kvs" using assms(2) field_Some_obj by blast
  obtain r l where inner: "try_catch (vision_tier env k (language_of b))
                      (\<lambda>groqError. getFallbackAnalysis env k (language_of b)) = (Inr r, l)"
    using inner_try_total by blast
  have "destructure b = Inr (Some img, language_of b)"
    using assms(2) b by (simp add: destructure_def get_prop_def)
  then show ?thesis
    unfolding POST_def using assms inner
    by (simp add: and_then_pure truthy_opt_def try_catch_Inr)
qed

lemma vision_throws_falls_back:
  assumes "vision_tier env k lang = (Inl e, l)"
  shows "\<exists>p. try_catch (vision_tier env k lang) (\<lambda>groqError. getFallbackAnalysis env k lang)
            = (Inr \<lparr>status = 200, body = p\<rparr>, l @ [GuidanceCall (language_name lang)]) \<and>
       field p ''fallbackMode'' = Some (JBool True) \<and>
       (p = unavailable_payload env \<or> (\<exists>c. p = serialise (guidance_payload env lang c)))"
  using assms fallback_outcome [of env k lang] by (auto simp: try_catch_Inl)

lemma POST_cases:
  "snd (POST env) = [] \<or>
   (\<exists>b img k. request_json env = Inr b \<and> field b ''imageBase64'' = Some img \<and> truthy img \<and>
              GROQ_API_KEY env = Some k \<and> k \<noteq> [])"
proof (cases "request_json env")
  case (Inl e)
  then show ?thesis
    by (simp add: POST_def and_then_pure try_catch_Inl resolve_def)
next
  case (Inr b)
  note req = this
  show ?thesis
  proof (cases "b = JNull")
    case True
    with req show ?thesis
      by (simp add: POST_def and_then_pure try_catch_Inl resolve_def destructure_def get_prop_def)
  next
    case False
    then have d: "destructure b = Inr (field b ''imageBase64'', language_of b)"
      by (cases b) (simp_all add: destructure_def get_prop_def)
    show ?thesis
    proof (cases "truthy_opt (field b ''imageBase64'')")
      case False
      with req d show ?thesis
        by (simp add: POST_def and_then_pure try_catch_Inr resolve_def)
    next
      case True
      then obtain img where img: "field b ''imageBase64'' = Some img" "truthy img"
        by (auto simp: truthy_opt_def split: option.splits)
      show ?thesis
      proof (cases "\<exists>k. GROQ_API_KEY env = Some k \<and> k \<noteq> []")
        case True
        with req img show ?thesis by blast
      next
        case False
        with req d img show ?thesis
          by (auto simp: POST_def and_then_pure try_catch_Inr resolve_def truthy_opt_def
                split: option.splits)
      qed
    qed
  qed
qed

section \<open>Every way through the vision tier\<close>

lemma check_structure_Inr:
  "check_structure a = Inr a' \<Longrightarrow>
   a' = a \<and> (\<exists>kvs. a = JObj kvs) \<and> truthy_opt (field a ''disease'') \<and> is_array (field a ''symptoms'')"
  by (cases a) (auto simp: check_structure_def get_prop_def truthy_opt_def split: if_splits)

lemma check_structure_pass:
  "truthy_opt (field a ''disease'') \<Longrightarrow> is_array (field a ''symptoms'') \<Longrightarrow> check_structure a = Inr a"
  by (cases a) (auto simp: check_structure_def get_prop_def truthy_opt_def)

lemma check_structure_reject:
  "field a ''disease'' = None \<or> \<not> is_array (field a ''symptoms'') \<Longrightarrow> \<exists>e. check_structure a = Inl e"
  by (cases a) (auto simp: check_structure_def get_prop_def truthy_opt_def)

lemma vision_tier_cases:
  "(\<exists>e. vision_tier env k lang = (Inl e, [VisionCall])) \<or>
   (\<exists>e. vision_tier env k lang = (Inl e, [VisionCall, TreatmentCall (language_name lang)])) \<or>
   vision_tier env k lang =
     (fst (getFallbackAnalysis env k lang), VisionCall # snd (getFallbackAnalysis env k lang)) \<or>
   (\<exists>r d answer analysis tr td tc.
      vision_fetch env = Inr r \<and> ok r \<and> json_body r = Inr d \<and>
      choice_content d = Inr (Some answer) \<and> truthy answer \<and>
      parse_analysis env answer = Inr analysis \<and> check_structure analysis = Inr analysis \<and>
      \<not> isl (narrative_prompt env analysis) \<and>
      treatment_fetch env = Inr tr \<and> json_body tr = Inr td \<and> choice_content td = Inr tc \<and>
      vision_tier env k lang =
        (Inr (NextResponse_json (enhancedAnalysis env analysis tc lang) 200),
         [VisionCall, TreatmentCall (language_name lang)]))"
proof (cases "vision_fetch env")
  case (Inl e)
  then show ?thesis by (simp add: vision_tier_def and_then_perform)
next
  case (Inr r)
  note fetch = this
  show ?thesis
  proof (cases "ok r")
    case False
    with fetch show ?thesis
      by (auto simp: vision_tier_def and_then_perform and_then_pure throw_def split: sum.splits)
  next
    case True
    note okr = this
    show ?thesis
    proof (cases "json_body r")
      case (Inl e)
      with fetch okr show ?thesis by (simp add: vision_tier_def and_then_perform and_then_pure)
    next
      case (Inr d)
      note body = this
      show ?thesis
      proof (cases "choice_content d")
        case (Inl e)
        with fetch okr body show ?thesis
          by (simp add: vision_tier_def and_then_perform and_then_pure)
      next
        case (Inr c)
        note cc = this
        show ?thesis
        proof (cases "\<exists>answer. c = Some answer \<and> truthy answer")
          case False
          with fetch okr body cc show ?thesis
            by (auto simp: vision_tier_def and_then_perform and_then_pure throw_def
                  split: option.splits)
        next
          case True
          then obtain answer where c: "c = Some answer" "truthy answer" by blast
          show ?thesis
          proof (cases "parse_analysis env answer")
            case (Inl e)
            with fetch okr body cc c show ?thesis
              by (simp add: vision_tier_def and_then_perform and_then_pure)
          next
            case (Inr parsed)
            note parse = this
            show ?thesis
            proof (cases "check_structure parsed")
              case (Inl e)
              with fetch okr body cc c parse show ?thesis
                by (simp add: vision_tier_def and_then_perform and_then_pure)
            next
              case (Inr analysis)
              with check_structure_Inr have same: "analysis = parsed" by blast
              note chk = Inr [unfolded same]
              show ?thesis
              proof (cases "narrative_prompt env parsed")
                case (Inl e)
                with fetch okr body cc c parse chk show ?thesis
                  by (simp add: vision_tier_def and_then_perform and_then_pure)
              next
                case (Inr prompt)
                note pr = this
                show ?thesis
                proof (cases "treatment_fetch env")
                  case (Inl e)
                  with fetch okr body cc c parse chk pr show ?thesis
                    by (simp add: vision_tier_def and_then_perform and_then_pure)
                next
                  case (Inr tr)
                  note tf = this
                  show ?thesis
                  proof (cases "json_body tr")
                    case (Inl e)
                    with fetch okr body cc c parse chk pr tf show ?thesis
                      by (simp add: vision_tier_def and_then_perform and_then_pure)
                  next
                    case (Inr td)
                    note tb = this
                    show ?thesis
                    proof (cases "choice_content td")
                      case (Inl e)
                      with fetch okr body cc c parse chk pr tf tb show ?thesis
                        by (simp add: vision_tier_def and_then_perform and_then_pure)
                    next
                      case (Inr tc)
                      with fetch okr body cc c parse chk pr tf tb show ?thesis
                        by (simp add: vision_tier_def and_then_perform and_then_pure resolve_def)
                    qed
                  qed
                qed
              qed
            qed
          qed
        qed
      qed
    qed
  qed
qed

lemma vision_success:
  assumes "vision_fetch env = Inr r" "ok r" "json_body r = Inr d"
    "choice_content d = Inr (Some answer)" "truthy answer"
    "parse_analysis env answer = Inr analysis" "check_structure analysis = Inr analysis"
    "narrative_prompt env analysis = Inr prompt"
    "treatment_fetch env = Inr tr" "json_body tr = Inr td" "choice_content td = Inr tc"
  shows "vision_tier env k lang =
        (Inr (NextResponse_json (enhancedAnalysis env analysis tc lang) 200),
         [VisionCall, TreatmentCall (language_name lang)])"
  using assms by (simp add: vision_tier_def and_then_perform and_then_pure resolve_def)

lemma analysis_cases:
  fixes env k lang
  defines "T \<equiv> try_catch (vision_tier env k lang) (\<lambda>groqError. getFallbackAnalysis env k lang)"
    and "FB \<equiv> getFallbackAnalysis env k lang"
  shows "T = (fst FB, [VisionCall] @ snd FB) \<or>
         T = (fst FB, [VisionCall, TreatmentCall (language_name lang)] @ snd FB) \<or>
         (\<exists>r d answer analysis tr td tc.
            vision_fetch env = Inr r \<and> ok r \<and> json_body r = Inr d \<and>
            choice_content d = Inr (Some answer) \<and> truthy answer \<and>
            parse_analysis env answer = Inr analysis \<and> check_structure analysis = Inr analysis \<and>
            \<not> isl (narrative_prompt env analysis) \<and>
            treatment_fetch env = Inr tr \<and> json_body tr = Inr td \<and> choice_content td = Inr tc \<and>
            T = (Inr (NextResponse_json (enhancedAnalysis env analysis tc lang) 200),
                 [VisionCall, TreatmentCall (language_name lang)]))"
proof -
  obtain p where fb: "FB = (Inr \<lparr>status = 200, body = p\<rparr>, [GuidanceCall (language_name lang)])"
    using fallback_outcome [of env k lang] unfolding FB_def by blast
  consider
    (a) e where "vision_tier env k lang = (Inl e, [VisionCall])"
  | (b) e where "vision_tier env k lang = (Inl e, [VisionCall, TreatmentCall (language_name lang)])"
  | (c) "vision_tier env k lang = (fst FB, VisionCall # snd FB)"
  | (d) r d answer analysis tr td tc where
      "vision_fetch env = Inr r" "ok r" "json_body r = Inr d"
      "choice_content d = Inr (Some answer)" "truthy answer"
      "parse_analysis env answer = Inr analysis" "check_structure analysis = Inr analysis"
      "\<not> isl (narrative_prompt env analysis)"
      "treatment_fetch env = Inr tr" "json_body tr = Inr td" "choice_content td = Inr tc"
      "vision_tier env k lang =
        (Inr (NextResponse_json (enhancedAnalysis env analysis tc lang) 200),
         [VisionCall, TreatmentCall (language_name lang)])"
    using vision_tier_cases [of env k lang] unfolding FB_def by blast
  then show ?thesis
  proof cases
    case a
    then show ?thesis unfolding T_def by (simp add: try_catch_Inl FB_def)
  next
    case b
    then show ?thesis unfolding T_def by (simp add: try_catch_Inl FB_def)
  next
    case c
    then show ?thesis unfolding T_def using fb by (simp add: try_catch_Inr)
  next
    case d
    then have "T = (Inr (NextResponse_json (enhancedAnalysis env analysis tc lang) 200),
                 [VisionCall, TreatmentCall (language_name lang)])"
      unfolding T_def by (simp add: try_catch_Inr)
    with d show ?thesis by blast
  qed
qed

lemma field_enhanced:
  "field (enhancedAnalysis env (JObj kvs) tc lang) key =
     (if key = ''language'' then Some lang
      else if key = ''analysisTimestamp'' then Some (JStr (now_iso env))
      else if key = ''aiGeneratedTreatment'' then Some (or_else tc (JStr []))
      else map_of kvs key)"
  by (simp add: enhancedAnalysis_def update_conv')

lemma parse_analysis_direct:
  "JSON_parse env s = Inr a \<Longrightarrow> parse_analysis env (JStr s) = Inr a"
  by (simp add: parse_analysis_def parse_text_def)

text \<open>
  A reply whose string conversion throws ends in a TypeError: the conversion throws inside
  the \<^verbatim>\<open>try\<close> of line 83, and the \<^verbatim>\<open>catch\<close> then calls \<^verbatim>\<open>.match\<close> on a
  value that is no string.
\<close>

lemma parse_analysis_unconvertible:
  "isl (js_string (Number_string env) v) \<Longrightarrow> isl (parse_analysis env v)"
  by (cases v) (auto simp: parse_analysis_def parse_text_def split: sum.splits)

text \<open>
  What \<open>match_braces\<close> returns is a piece of the text that opens with the first opening
  brace of the text and closes with its last closing brace.
\<close>

lemma match_braces_span:
  assumes "match_braces s = Some m"
  shows "\<exists>pre inner post. s = pre @ m @ post \<and> m = CHR ''{'' # inner @ [CHR ''}''] \<and>
           CHR ''{'' \<notin> set pre \<and> CHR ''}'' \<notin> set post"
proof -
  let ?P = "\<lambda>c. c \<noteq> CHR ''{''" and ?Q = "\<lambda>c. c \<noteq> CHR ''}''"
  from assms obtain b rest where d: "dropWhile ?P s = b # rest"
    by (auto simp: match_braces_def split: list.splits)
  then have b: "b = CHR ''{''" using hd_dropWhile [of ?P s] by auto
  let ?closing = "dropWhile ?Q (rev rest)"
  have m: "m = b # rev ?closing" and ne: "?closing \<noteq> []"
  proof -
    have "match_braces s = (case rev ?closing of [] \<Rightarrow> None | x # xs \<Rightarrow> Some (b # x # xs))"
      using d by (simp add: match_braces_def)
    with assms show "m = b # rev ?closing" and "?closing \<noteq> []"
      by (cases "rev ?closing"; simp)+
  qed
  then obtain c cs where bk: "?closing = c # cs" by (cases "?closing") auto
  then have c: "c = CHR ''}''" using hd_dropWhile [of ?Q "rev rest"] by auto
  have "rev rest = takeWhile ?Q (rev rest) @ ?closing" by simp
  then have "rest = rev ?closing @ rev (takeWhile ?Q (rev rest))"
    by (metis rev_append rev_rev_ident)
  moreover have "s = takeWhile ?P s @ b # rest" using d by (metis takeWhile_dropWhile_id)
  ultimately have s: "s = takeWhile ?P s @ m @ rev (takeWhile ?Q (rev rest))"
    using m by simp
  have pre: "CHR ''{'' \<notin> set (takeWhile ?P s)" by (auto dest: set_takeWhileD)
  have post: "CHR ''}'' \<notin> set (rev (takeWhile ?Q (rev rest)))" by (auto dest: set_takeWhileD)
  have "m = CHR ''{'' # rev cs @ [CHR ''}'']" using m b bk c by simp
  with s pre post show ?thesis by blast
qed

section \<open>The example executions, run\<close>

lemma example_request:
  "field example_body ''imageBase64'' = Some (JStr ''data:image/png;base64,iVBORw0KGgo='')"
  "language_of example_body = JStr ''en''"
  by (simp_all add: example_body_def language_of_def)

lemma example_env_fields:
  "request_json example_env = Inr example_body"
  "GROQ_API_KEY example_env = Some ''gsk_example''"
  "JSON_parse example_env = example_parse"
  "now_iso example_env = ''2026-01-01T00:00:00.000Z''"
  "vision_fetch example_env = replied 200 (completion (JStr leaf_blight_text))"
  "treatment_fetch example_env = replied 200 (completion (JStr ''Spray a copper fungicide.''))"
  "guidance_fetch example_env = replied 200 (completion (JStr ''Check the leaves for spots.''))"
  by (simp_all add: example_env_def)

lemma example_parse_texts:
  "example_parse leaf_blight_text = Inr leaf_blight"
  "example_parse bare_text = Inr bare"
  "example_parse vague_text = Inr vague"
  "example_parse scalar_text = Inr scalar"
  by (simp_all add: example_parse_def leaf_blight_text_def bare_text_def vague_text_def
        scalar_text_def)

lemma example_parse_prose: "example_parse prose_text = Inl (SyntaxError ''Unexpected token'')"
  by (simp add: example_parse_def prose_text_def leaf_blight_text_def bare_text_def
        vague_text_def scalar_text_def)

lemma match_braces_prose: "match_braces prose_text = None"
  by (simp add: match_braces_def prose_text_def)

lemma texts_nonempty:
  "leaf_blight_text \<noteq> []" "bare_text \<noteq> []" "vague_text \<noteq> []" "scalar_text \<noteq> []"
  by (simp_all add: leaf_blight_text_def bare_text_def vague_text_def scalar_text_def)

lemma leaf_blight_truthy: "truthy (JStr leaf_blight_text)"
  by (simp add: texts_nonempty)

lemma choice_content_completion: "choice_content (completion c) = Inr (Some c)"
  by (simp add: choice_content_def completion_def get_prop_def opt_chain_def)

lemma choice_content_api_error: "choice_content (api_error m) = Inr None"
  by (simp add: choice_content_def api_error_def get_prop_def opt_chain_def)

lemma ok_200: "ok \<lparr>http_status = 200, json_body = j\<rparr>"
  by (simp add: ok_def)

lemma not_ok_429_503:
  "\<not> ok \<lparr>http_status = 429, json_body = j\<rparr>" "\<not> ok \<lparr>http_status = 503, json_body = j\<rparr>"
  by (simp_all add: ok_def)

lemma api_error_silent: "mentions_image_or_vision (api_error ''Service unavailable'') = Inr False"
  by (simp add: mentions_image_or_vision_def error_message_includes_def api_error_def
        get_prop_def opt_chain_def call_includes_def)

text \<open>
  The narrative request of the example analyses can be built; for an analysis with a symptom
  that is an object with an entry \<^verbatim>\<open>toString\<close> it cannot, although the analysis passes
  the structural check.
\<close>

lemma example_prompts:
  "\<not> isl (narrative_prompt env leaf_blight)"
  "\<not> isl (narrative_prompt env bare)"
  "\<not> isl (narrative_prompt env vague)"
  by (simp_all add: narrative_prompt_def leaf_blight_def bare_def vague_def)

lemma narrative_prompt_unconvertible:
  "check_structure (JObj [(''disease'', JStr ''Rust''),
                          (''symptoms'', JArr [JObj [(''toString'', JNum 1)] ])])
     = Inr (JObj [(''disease'', JStr ''Rust''),
                  (''symptoms'', JArr [JObj [(''toString'', JNum 1)] ])])"
  "narrative_prompt env (JObj [(''disease'', JStr ''Rust''),
                               (''symptoms'', JArr [JObj [(''toString'', JNum 1)] ])])
     = Inl (TypeError ''Cannot convert object to primitive value'')"
  by (simp_all add: check_structure_def get_prop_def truthy_opt_def is_array_def
        narrative_prompt_def)

lemma POST_merged:
  assumes "request_json env = Inr b" "field b ''imageBase64'' = Some img" "truthy img"
    and "GROQ_API_KEY env = Some k" "k \<noteq> []"
    and "vision_fetch env = replied 200 (completion (JStr s))" "s \<noteq> []"
    and "JSON_parse env s = Inr a" "check_structure a = Inr a"
    and "\<not> isl (narrative_prompt env a)"
    and "treatment_fetch env = replied code (completion tc)"
  shows "POST env =
        (Inr (NextResponse_json (enhancedAnalysis env a (Some tc) (language_of b)) 200),
         [VisionCall, TreatmentCall (language_name (language_of b))])"
proof -
  have t: "truthy (JStr s)" using assms(7) by simp
  obtain prompt where pr: "narrative_prompt env a = Inr prompt"
    using assms(10) by (cases "narrative_prompt env a") simp_all
  have "vision_tier env k (language_of b) =
        (Inr (NextResponse_json (enhancedAnalysis env a (Some tc) (language_of b)) 200),
         [VisionCall, TreatmentCall (language_name (language_of b))])"
    using assms(6) [unfolded replied_def] ok_200 _ choice_content_completion t
      parse_analysis_direct [OF assms(8)] assms(9) pr assms(11) [unfolded replied_def] _
      choice_content_completion
    by (rule vision_success) simp_all
  then show ?thesis
    using POST_reaches_analysis [OF assms(1-5)] by (simp add: try_catch_Inr)
qed

section \<open>Properties of the image analysis route\<close>




text \<open>
  C2. When the vision call answers with a text that \<^verbatim>\<open>JSON.parse\<close> rejects, and the
  text either has no brace span or has one (from its first opening brace to its last closing
  brace) that \<^verbatim>\<open>JSON.parse\<close> rejects as well, the handler goes to the fallback tier: it
  issues the guidance call right after the vision call and answers 200 with one of the two
  fallback payloads, whose \<^verbatim>\<open>fallbackMode\<close> is \<^verbatim>\<open>true\<close>.
\<close>

theorem C2_unparseable_reply_falls_back:
  assumes "request_json env = Inr b" "field b ''imageBase64'' = Some img" "truthy img"
    and "GROQ_API_KEY env = Some k" "k \<noteq> []"
    and "vision_fetch env = Inr r" "ok r" "json_body r = Inr d"
    and "choice_content d = Inr (Some (JStr reply))"
    and "isl (JSON_parse env reply)"
    and "\<forall>m. match_braces reply = Some m \<longrightarrow> isl (JSON_parse env m)"
  shows "\<exists>p. POST env = (Inr \<lparr>status = 200, body = p\<rparr>,
                        [VisionCall, GuidanceCall (language_name (language_of b))]) \<and>
             field p ''fallbackMode'' = Some (JBool True) \<and>
             (p = unavailable_payload env \<or>
              (\<exists>c. p = serialise (guidance_payload env (language_of b) c)))"
proof -
  have "\<exists>e. parse_analysis env (JStr reply) = Inl e"
    using assms(10,11)
    by (auto simp: parse_analysis_def parse_text_def isl_def split: sum.splits option.splits)
  then obtain e where "parse_analysis env (JStr reply) = Inl e" ..
  then have "\<exists>e'. vision_tier env k (language_of b) = (Inl e', [VisionCall])"
    unfolding vision_tier_def using assms(6-9)
    by (simp add: and_then_perform and_then_pure throw_def)
  then obtain e' where "vision_tier env k (language_of b) = (Inl e', [VisionCall])" ..
  from vision_throws_falls_back [OF this] POST_reaches_analysis [OF assms(1-5)]
  show ?thesis by simp
qed

theorem C2_witness:
  "\<exists>p. POST (example_env\<lparr>vision_fetch := replied 200 (completion (JStr prose_text))\<rparr>) =
          (Inr \<lparr>status = 200, body = p\<rparr>, [VisionCall, GuidanceCall ''English'']) \<and>
       field p ''fallbackMode'' = Some (JBool True)"
proof -
  let ?env = "example_env\<lparr>vision_fetch := replied 200 (completion (JStr prose_text))\<rparr>"
  let ?r = "\<lparr>http_status = 200, json_body = Inr (completion (JStr prose_text))\<rparr>"
  have h1: "request_json ?env = Inr example_body" by (simp add: example_env_def)
  have h3: "truthy (JStr ''data:image/png;base64,iVBORw0KGgo='')" by simp
  have h4: "GROQ_API_KEY ?env = Some ''gsk_example''" by (simp add: example_env_def)
  have h5: "''gsk_example'' \<noteq> []" by simp
  have h6: "vision_fetch ?env = Inr ?r" by (simp add: replied_def)
  have h7: "ok ?r" by (simp add: ok_def)
  have h8: "json_body ?r = Inr (completion (JStr prose_text))" by simp
  have h9: "choice_content (completion (JStr prose_text)) = Inr (Some (JStr prose_text))"
    by (simp add: choice_content_completion)
  have h10: "isl (JSON_parse ?env prose_text)"
    by (simp add: example_env_def example_parse_prose)
  have h11: "\<forall>m. match_braces prose_text = Some m \<longrightarrow> isl (JSON_parse ?env m)"
    by (simp add: match_braces_prose)
  from C2_unparseable_reply_falls_back [OF h1 example_request(1) h3 h4 h5 h6 h7 h8 h9 h10 h11]
  show ?thesis
    by (auto simp: example_request(2) language_name_def)
qed

text \<open>
  C3. When the vision reply parses (directly or through its brace span) to a value that has
  no \<^verbatim>\<open>disease\<close> field, or whose \<^verbatim>\<open>symptoms\<close> is not an array, the
  structural check throws although the parse succeeded, and the handler goes to the
  fallback tier: the guidance call follows the vision call, and the answer is 200 with a
  fallback payload whose \<^verbatim>\<open>fallbackMode\<close> is \<^verbatim>\<open>true\<close>.
\<close>

theorem C3_invalid_structure_falls_back:
  assumes "request_json env = Inr b" "field b ''imageBase64'' = Some img" "truthy img"
    and "GROQ_API_KEY env = Some k" "k \<noteq> []"
    and "vision_fetch env = Inr r" "ok r" "json_body r = Inr d"
    and "choice_content d = Inr (Some answer)"
    and "parse_analysis env answer = Inr analysis"
    and "field analysis ''disease'' = None \<or> \<not> is_array (field analysis ''symptoms'')"
  shows "\<exists>p. POST env = (Inr \<lparr>status = 200, body = p\<rparr>,
                        [VisionCall, GuidanceCall (language_name (language_of b))]) \<and>
             field p ''fallbackMode'' = Some (JBool True) \<and>
             (p = unavailable_payload env \<or>
              (\<exists>c. p = serialise (guidance_payload env (language_of b) c)))"
proof -
  obtain e where "check_structure analysis = Inl e"
    using check_structure_reject [OF assms(11)] ..
  then have "\<exists>e'. vision_tier env k (language_of b) = (Inl e', [VisionCall])"
    unfolding vision_tier_def using assms(6-10)
    by (simp add: and_then_perform and_then_pure throw_def)
  then obtain e' where "vision_tier env k (language_of b) = (Inl e', [VisionCall])" ..
  from vision_throws_falls_back [OF this] POST_reaches_analysis [OF assms(1-5)]
  show ?thesis by simp
qed

theorem C3_witness:
  "\<exists>p. POST (example_env\<lparr>vision_fetch := replied 200 (completion (JStr scalar_text))\<rparr>) =
          (Inr \<lparr>status = 200, body = p\<rparr>, [VisionCall, GuidanceCall ''English'']) \<and>
       field p ''fallbackMode'' = Some (JBool True)"
proof -
  let ?env = "example_env\<lparr>vision_fetch := replied 200 (completion (JStr scalar_text))\<rparr>"
  let ?r = "\<lparr>http_status = 200, json_body = Inr (completion (JStr scalar_text))\<rparr>"
  have h1: "request_json ?env = Inr example_body" by (simp add: example_env_fields)
  have h3: "truthy (JStr ''data:image/png;base64,iVBORw0KGgo='')" by simp
  have h4: "GROQ_API_KEY ?env = Some ''gsk_example''" by (simp add: example_env_fields)
  have h5: "''gsk_example'' \<noteq> []" by simp
  have h6: "vision_fetch ?env = Inr ?r" by (simp add: replied_def)
  have h8: "json_body ?r = Inr (completion (JStr scalar_text))" by simp
  have h10: "parse_analysis ?env (JStr scalar_text) = Inr scalar"
    by (rule parse_analysis_direct) (simp add: example_env_fields example_parse_texts)
  have h11: "field scalar ''disease'' = None \<or> \<not> is_array (field scalar ''symptoms'')"
    by (simp add: scalar_def is_array_def)
  from C3_invalid_structure_falls_back
         [OF h1 example_request(1) h3 h4 h5 h6 ok_200 h8 choice_content_completion h10 h11]
  show ?thesis
    by (auto simp: example_request(2) language_name_def)
qed

text \<open>
  C4 as stated fails where the narrative call fails by raising: the vision reply is the
  valid "Leaf Blight" analysis, the \<^verbatim>\<open>fetch\<close> of the narrative call rejects, and the
  answer is the guidance payload of the fallback tier, without the disease of the vision
  reply and after a third remote call.
\<close>

theorem C4_counterexample:
  "parse_analysis (example_env\<lparr>treatment_fetch := Inl (TypeError ''fetch failed'')\<rparr>)
     (JStr leaf_blight_text) = Inr leaf_blight \<and>
   check_structure leaf_blight = Inr leaf_blight \<and>
   POST (example_env\<lparr>treatment_fetch := Inl (TypeError ''fetch failed'')\<rparr>) =
     (Inr \<lparr>status = 200,
           body = guidance_payload example_env (JStr ''en'') (Some (JStr ''Check the leaves for spots.''))\<rparr>,
      [VisionCall, TreatmentCall ''English'', GuidanceCall ''English'']) \<and>
   field leaf_blight ''disease'' = Some (JStr ''Leaf Blight'') \<and>
   field (guidance_payload example_env (JStr ''en'') (Some (JStr ''Check the leaves for spots.'')))
     ''disease'' = Some (JStr ''Analysis Service - Use Guidance'') \<and>
   field (guidance_payload example_env (JStr ''en'') (Some (JStr ''Check the leaves for spots.'')))
     ''fallbackMode'' = Some (JBool True)"
proof -
  let ?env = "example_env\<lparr>treatment_fetch := Inl (TypeError ''fetch failed'')\<rparr>"
  have post: "POST ?env = try_catch (vision_tier ?env ''gsk_example'' (JStr ''en''))
                      (\<lambda>groqError. getFallbackAnalysis ?env ''gsk_example'' (JStr ''en''))"
    using POST_reaches_analysis [of ?env example_body _ "''gsk_example''"]
    by (simp add: example_env_fields example_request)
  have pa: "parse_analysis ?env (JStr leaf_blight_text) = Inr leaf_blight"
    by (rule parse_analysis_direct) (simp add: example_env_fields example_parse_texts)
  have chk: "check_structure leaf_blight = Inr leaf_blight"
    by (rule check_structure_pass) (simp_all add: leaf_blight_def truthy_opt_def is_array_def)
  obtain prompt where pr: "narrative_prompt ?env leaf_blight = Inr prompt"
    using example_prompts(1) [of ?env] by (cases "narrative_prompt ?env leaf_blight") simp_all
  have v: "vision_tier ?env ''gsk_example'' (JStr ''en'')
             = (Inl (TypeError ''fetch failed''), [VisionCall, TreatmentCall ''English''])"
    by (simp add: vision_tier_def example_env_fields replied_def and_then_perform and_then_pure
          ok_200 choice_content_completion texts_nonempty pa chk pr language_name_def)
  have g: "getFallbackAnalysis ?env ''gsk_example'' (JStr ''en'') =
     (Inr (NextResponse_json
             (guidance_payload ?env (JStr ''en'') (Some (JStr ''Check the leaves for spots.''))) 200),
      [GuidanceCall (language_name (JStr ''en''))])"
    by (rule getFallbackAnalysis_completes
              [where d = "completion (JStr ''Check the leaves for spots.'')"])
       (simp add: example_env_fields replied_def choice_content_completion)+
  have same: "guidance_payload ?env (JStr ''en'') (Some (JStr ''Check the leaves for spots.''))
                = guidance_payload example_env (JStr ''en'') (Some (JStr ''Check the leaves for spots.''))"
    by (simp add: guidance_payload_def)
  have d: "field leaf_blight ''disease'' = Some (JStr ''Leaf Blight'')"
    by (simp add: leaf_blight_def)
  show ?thesis
    unfolding post v g same
    by (simp add: pa chk d try_catch_Inl NextResponse_json_def language_name_def guidance_fields
          field_fallbackMode_guidance serialise_guidance_text)
qed

text \<open>
  C4, as the code has it. When the vision reply has passed the parse and the structural
  check, the user message of the narrative request can be built from it (the string
  conversion of its \<^verbatim>\<open>disease\<close> and of each of its \<^verbatim>\<open>symptoms\<close> does not
  throw), and the narrative call completes with a JSON body that carries no content (or an
  empty one) under \<^verbatim>\<open>choices[0].message\<close>, whatever its status, then the answer is
  200 with the \<^verbatim>\<open>disease\<close>, \<^verbatim>\<open>symptoms\<close> and \<^verbatim>\<open>treatment\<close> of the vision
  reply as \<^verbatim>\<open>JSON.stringify\<close> writes them and an empty
  \<^verbatim>\<open>aiGeneratedTreatment\<close>, and no guidance call is made.
\<close>

theorem C4_narrative_without_content:
  assumes "request_json env = Inr b" "field b ''imageBase64'' = Some img" "truthy img"
    and "GROQ_API_KEY env = Some k" "k \<noteq> []"
    and "vision_fetch env = Inr r" "ok r" "json_body r = Inr d"
    and "choice_content d = Inr (Some answer)" "truthy answer"
    and "parse_analysis env answer = Inr analysis"
    and "truthy_opt (field analysis ''disease'')" "is_array (field analysis ''symptoms'')"
    and "narrative_prompt env analysis = Inr prompt"
    and "treatment_fetch env = Inr tr" "json_body tr = Inr td"
    and "choice_content td = Inr tc" "\<not> truthy_opt tc"
  shows "\<exists>p. POST env = (Inr \<lparr>status = 200, body = p\<rparr>,
                        [VisionCall, TreatmentCall (language_name (language_of b))]) \<and>
             field p ''disease'' = map_option serialise (field analysis ''disease'') \<and>
             field p ''symptoms'' = map_option serialise (field analysis ''symptoms'') \<and>
             field p ''treatment'' = map_option serialise (field analysis ''treatment'') \<and>
             field p ''aiGeneratedTreatment'' = Some (JStr [])"
proof -
  have chk: "check_structure analysis = Inr analysis"
    using assms(12,13) by (rule check_structure_pass)
  then obtain kvs where kvs: "analysis = JObj kvs" using check_structure_Inr by blast
  have "vision_tier env k (language_of b) =
        (Inr (NextResponse_json (enhancedAnalysis env analysis tc (language_of b)) 200),
         [VisionCall, TreatmentCall (language_name (language_of b))])"
    using assms(6-11) chk assms(14-17) by (rule vision_success)
  then have "POST env =
        (Inr (NextResponse_json (enhancedAnalysis env analysis tc (language_of b)) 200),
         [VisionCall, TreatmentCall (language_name (language_of b))])"
    using POST_reaches_analysis [OF assms(1-5)] by (simp add: try_catch_Inr)
  moreover have "or_else tc (JStr []) = JStr []"
    using assms(18) by (auto simp: or_else_def truthy_opt_def split: option.splits)
  ultimately show ?thesis
    unfolding kvs by (simp add: NextResponse_json_def field_serialise field_enhanced)
qed

theorem C4_witness:
  "\<exists>p. POST (example_env\<lparr>treatment_fetch := replied 429 (api_error ''Rate limit reached'')\<rparr>) =
          (Inr \<lparr>status = 200, body = p\<rparr>, [VisionCall, TreatmentCall ''English'']) \<and>
       field p ''disease'' = Some (JStr ''Leaf Blight'') \<and>
       field p ''symptoms'' = Some (JArr [JStr ''yellow spots'']) \<and>
       field p ''treatment'' = Some (JArr [JStr ''fungicide'']) \<and>
       field p ''aiGeneratedTreatment'' = Some (JStr [])"
proof -
  let ?env = "example_env\<lparr>treatment_fetch := replied 429 (api_error ''Rate limit reached'')\<rparr>"
  let ?r = "\<lparr>http_status = 200, json_body = Inr (completion (JStr leaf_blight_text))\<rparr>"
  let ?tr = "\<lparr>http_status = 429, json_body = Inr (api_error ''Rate limit reached'')\<rparr>"
  have h1: "request_json ?env = Inr example_body" by (simp add: example_env_fields)
  have h3: "truthy (JStr ''data:image/png;base64,iVBORw0KGgo='')" by simp
  have h4: "GROQ_API_KEY ?env = Some ''gsk_example''" by (simp add: example_env_fields)
  have h5: "''gsk_example'' \<noteq> []" by simp
  have h6: "vision_fetch ?env = Inr ?r" by (simp add: example_env_fields replied_def)
  have h8: "json_body ?r = Inr (completion (JStr leaf_blight_text))" by simp
  have h11: "parse_analysis ?env (JStr leaf_blight_text) = Inr leaf_blight"
    by (rule parse_analysis_direct) (simp add: example_env_fields example_parse_texts)
  have h12: "truthy_opt (field leaf_blight ''disease'')"
    by (simp add: leaf_blight_def truthy_opt_def)
  have h13: "is_array (field leaf_blight ''symptoms'')"
    by (simp add: leaf_blight_def is_array_def)
  obtain prompt where h14: "narrative_prompt ?env leaf_blight = Inr prompt"
    using example_prompts(1) [of ?env] by (cases "narrative_prompt ?env leaf_blight") simp_all
  have h15: "treatment_fetch ?env = Inr ?tr" by (simp add: replied_def)
  have h16: "json_body ?tr = Inr (api_error ''Rate limit reached'')" by simp
  have h18: "\<not> truthy_opt None" by (simp add: truthy_opt_def)
  from C4_narrative_without_content
         [OF h1 example_request(1) h3 h4 h5 h6 ok_200 h8 choice_content_completion
             leaf_blight_truthy h11 h12 h13 h14 h15 h16 choice_content_api_error h18]
  show ?thesis
    by (auto simp: example_request(2) language_name_def leaf_blight_def)
qed

text \<open>
  C5 as stated fails where the guidance call fails with an error status and a JSON error
  body: the vision call and the guidance call are both answered 503, and the answer is the
  guidance payload with its stock advice and confidence 0.6, not the hardcoded one.
\<close>

theorem C5_counterexample:
  "\<not> ok \<lparr>http_status = 503, json_body = Inr (api_error ''Service unavailable'')\<rparr> \<and>
   POST (example_env\<lparr>vision_fetch := replied 503 (api_error ''Service unavailable''),
                     guidance_fetch := replied 503 (api_error ''Service unavailable'')\<rparr>) =
     (Inr \<lparr>status = 200,
           body = guidance_payload example_env (JStr ''en'') None\<rparr>,
      [VisionCall, GuidanceCall ''English'']) \<and>
   field (guidance_payload example_env (JStr ''en'') None) ''disease''
     = Some (JStr ''Analysis Service - Use Guidance'') \<and>
   field (guidance_payload example_env (JStr ''en'') None) ''confidence'' = Some (JNum (6 / 10)) \<and>
   field (guidance_payload example_env (JStr ''en'') None) ''language'' = Some (JStr ''en'')"
proof -
  let ?env = "example_env\<lparr>vision_fetch := replied 503 (api_error ''Service unavailable''),
                     guidance_fetch := replied 503 (api_error ''Service unavailable'')\<rparr>"
  have post: "POST ?env = try_catch (vision_tier ?env ''gsk_example'' (JStr ''en''))
                      (\<lambda>groqError. getFallbackAnalysis ?env ''gsk_example'' (JStr ''en''))"
    using POST_reaches_analysis [of ?env example_body _ "''gsk_example''"]
    by (simp add: example_env_fields example_request)
  have v: "vision_tier ?env ''gsk_example'' (JStr ''en'')
             = (Inl (Error (''Groq API error: '' @ toString_nat 503)), [VisionCall])"
    by (simp add: vision_tier_def replied_def and_then_perform and_then_pure not_ok_429_503
          api_error_silent throw_def)
  have g: "getFallbackAnalysis ?env ''gsk_example'' (JStr ''en'') =
     (Inr (NextResponse_json (guidance_payload ?env (JStr ''en'') None) 200),
      [GuidanceCall (language_name (JStr ''en''))])"
    by (rule getFallbackAnalysis_completes [where d = "api_error ''Service unavailable''"])
       (simp add: replied_def choice_content_api_error)+
  have same: "guidance_payload ?env (JStr ''en'') None = guidance_payload example_env (JStr ''en'') None"
    by (simp add: guidance_payload_def)
  show ?thesis
    unfolding post v g same
    by (simp add: try_catch_Inl NextResponse_json_def language_name_def guidance_fields
          not_ok_429_503 serialise_guidance_text)
qed

text \<open>
  C5, as the code has it. In every execution that reaches the guidance call (the vision tier
  having failed) and in which that call raises (the \<^verbatim>\<open>fetch\<close> rejects, or its body
  is not JSON or is \<^verbatim>\<open>null\<close>), the answer is 200 with the hardcoded "service
  unavailable" payload: confidence 0, \<^verbatim>\<open>fallbackMode\<close> \<^verbatim>\<open>true\<close>, no
  \<^verbatim>\<open>language\<close> field. The guidance call is the last remote call, and only the
  vision call and possibly the treatment call come before it.
\<close>

theorem C5_guidance_raises_hardcoded:
  assumes "GuidanceCall l \<in> set (snd (POST env))" and "guidance_call_raises env"
  shows "fst (POST env) = Inr \<lparr>status = 200, body = unavailable_payload env\<rparr> \<and>
         (snd (POST env) = [VisionCall, GuidanceCall l] \<or>
          snd (POST env) = [VisionCall, TreatmentCall l, GuidanceCall l]) \<and>
         field (unavailable_payload env) ''disease'' = Some (JStr ''Service Temporarily Unavailable'') \<and>
         field (unavailable_payload env) ''confidence'' = Some (JNum 0) \<and>
         field (unavailable_payload env) ''fallbackMode'' = Some (JBool True) \<and>
         field (unavailable_payload env) ''language'' = None"
proof -
  from assms(1) have "snd (POST env) \<noteq> []" by auto
  then obtain b img k where req: "request_json env = Inr b" "field b ''imageBase64'' = Some img"
    "truthy img" "GROQ_API_KEY env = Some k" "k \<noteq> []"
    using POST_cases [of env] by blast
  let ?lang = "language_of b"
  have post: "POST env = try_catch (vision_tier env k ?lang)
                           (\<lambda>groqError. getFallbackAnalysis env k ?lang)"
    using req by (rule POST_reaches_analysis)
  have fb: "getFallbackAnalysis env k ?lang =
     (Inr (NextResponse_json (unavailable_payload env) 200), [GuidanceCall (language_name ?lang)])"
    using assms(2) by (rule getFallbackAnalysis_raises)
  note ac = analysis_cases [of env k ?lang, folded post]
  from ac assms(1)
  have "POST env = (Inr (NextResponse_json (unavailable_payload env) 200), [VisionCall, GuidanceCall l])
      \<or> POST env = (Inr (NextResponse_json (unavailable_payload env) 200),
                     [VisionCall, TreatmentCall l, GuidanceCall l])"
    unfolding fb by auto
  then show ?thesis
    by (auto simp: NextResponse_json_def unavailable_fields field_fallbackMode_unavailable
          serialise_unavailable)
qed

theorem C5_witness:
  "fst (POST (example_env\<lparr>vision_fetch := Inl (TypeError ''fetch failed''),
                          guidance_fetch := Inl (TypeError ''fetch failed'')\<rparr>))
     = Inr \<lparr>status = 200, body = unavailable_payload example_env\<rparr> \<and>
   snd (POST (example_env\<lparr>vision_fetch := Inl (TypeError ''fetch failed''),
                          guidance_fetch := Inl (TypeError ''fetch failed'')\<rparr>))
     = [VisionCall, GuidanceCall ''English'']"
proof -
  let ?env = "example_env\<lparr>vision_fetch := Inl (TypeError ''fetch failed''),
                          guidance_fetch := Inl (TypeError ''fetch failed'')\<rparr>"
  have post: "POST ?env = try_catch (vision_tier ?env ''gsk_example'' (JStr ''en''))
                      (\<lambda>groqError. getFallbackAnalysis ?env ''gsk_example'' (JStr ''en''))"
    using POST_reaches_analysis [of ?env example_body _ "''gsk_example''"]
    by (simp add: example_env_fields example_request)
  have v: "vision_tier ?env ''gsk_example'' (JStr ''en'') = (Inl (TypeError ''fetch failed''), [VisionCall])"
    by (simp add: vision_tier_def and_then_perform)
  have h2: "guidance_call_raises ?env" by (simp add: guidance_call_raises_def)
  have "snd (POST ?env) = [VisionCall, GuidanceCall ''English'']"
    unfolding post v
    by (simp add: try_catch_Inl getFallbackAnalysis_raises [OF h2] language_name_def)
  then have calls: "snd (POST ?env) = [VisionCall, GuidanceCall ''English'']"
    and h1: "GuidanceCall ''English'' \<in> set (snd (POST ?env))"
    by simp_all
  have same: "unavailable_payload ?env = unavailable_payload example_env"
    by (simp add: unavailable_payload_def)
  from C5_guidance_raises_hardcoded [OF h1 h2] calls show ?thesis
    by (simp add: same)
qed

text \<open>
  C6 as stated fails for a request without an image payload whose body cannot be
  destructured. The body \<^verbatim>\<open>null\<close> is valid JSON and has no \<^verbatim>\<open>imageBase64\<close>;
  line 5 throws a TypeError on it, and the \<^verbatim>\<open>catch\<close> of line 148 answers 500
  with the error \<^verbatim>\<open>"Analysis service temporarily unavailable"\<close>. A request with an
  empty body has no image payload either; \<^verbatim>\<open>request.json()\<close> rejects, and the
  answer is the same 500, with the message of that rejection as \<^verbatim>\<open>details\<close>.
\<close>

theorem C6_counterexample:
  "lacks_image (example_env\<lparr>request_json := Inr JNull\<rparr>) \<and>
   (case POST (example_env\<lparr>request_json := Inr JNull\<rparr>) of
      (Inr r, calls) \<Rightarrow>
        status r = 500 \<and>
        field (body r) ''error'' = Some (JStr ''Analysis service temporarily unavailable'') \<and>
        calls = []
    | (Inl e, calls) \<Rightarrow> False) \<and>
   lacks_image (example_env\<lparr>request_json := Inl (SyntaxError ''Unexpected end of JSON input'')\<rparr>) \<and>
   POST (example_env\<lparr>request_json := Inl (SyntaxError ''Unexpected end of JSON input'')\<rparr>) =
     (Inr \<lparr>status = 500,
           body = JObj [(''error'', JStr ''Analysis service temporarily unavailable''),
                        (''details'', JStr ''Unexpected end of JSON input'')]\<rparr>, [])"
  by (simp add: lacks_image_def POST_def destructure_def get_prop_def and_then_pure
        try_catch_Inl resolve_def NextResponse_json_def)

text \<open>
  C6, as the code has it. A request without an image payload never leads to an upstream
  call. When its body is a JSON value other than \<^verbatim>\<open>null\<close> that has no
  \<^verbatim>\<open>imageBase64\<close>, or an empty one, the answer is 400 with
  \<^verbatim>\<open>{error: "No image provided"}\<close>. When its body is \<^verbatim>\<open>null\<close> or cannot be
  read as JSON, the answer is 500 with the error
  \<^verbatim>\<open>"Analysis service temporarily unavailable"\<close> and the message of the failure as
  \<^verbatim>\<open>details\<close>.
\<close>

theorem C6_no_image_no_upstream_call:
  assumes "lacks_image env"
  shows "snd (POST env) = [] \<and>
         (case request_json env of
            Inr b \<Rightarrow>
              if b \<noteq> JNull
              then fst (POST env) =
                     Inr \<lparr>status = 400, body = JObj [(''error'', JStr ''No image provided'')]\<rparr>
              else \<exists>details.
                     fst (POST env) =
                       Inr \<lparr>status = 500,
                            body = JObj [(''error'', JStr ''Analysis service temporarily unavailable''),
                                         (''details'', JStr details)]\<rparr>
          | Inl e \<Rightarrow>
              fst (POST env) =
                Inr \<lparr>status = 500,
                     body = JObj [(''error'', JStr ''Analysis service temporarily unavailable''),
                                  (''details'', JStr (error_message e))]\<rparr>)"
proof (cases "request_json env")
  case (Inl e)
  then show ?thesis
    unfolding POST_def
    by (simp add: and_then_pure try_catch_Inl resolve_def NextResponse_json_def)
next
  case (Inr b)
  show ?thesis
  proof (cases "b = JNull")
    case True
    with Inr show ?thesis
      unfolding POST_def
      by (simp add: and_then_pure try_catch_Inl resolve_def NextResponse_json_def
            destructure_def get_prop_def)
  next
    case False
    then have "destructure b = Inr (field b ''imageBase64'', language_of b)"
      by (cases b) (simp_all add: destructure_def get_prop_def)
    moreover have "\<not> truthy_opt (field b ''imageBase64'')"
      using assms Inr by (auto simp: lacks_image_def truthy_opt_def)
    ultimately show ?thesis
      unfolding POST_def using Inr False
      by (simp add: and_then_pure resolve_def try_catch_Inr NextResponse_json_def)
  qed
qed

theorem C6_witness:
  "lacks_image (example_env\<lparr>request_json :=
       Inr (JObj [(''imageBase64'', JStr ''''), (''language'', JStr ''en'')])\<rparr>) \<and>
   POST (example_env\<lparr>request_json :=
       Inr (JObj [(''imageBase64'', JStr ''''), (''language'', JStr ''en'')])\<rparr>)
     = (Inr \<lparr>status = 400, body = JObj [(''error'', JStr ''No image provided'')]\<rparr>, [])"
proof -
  let ?env = "example_env\<lparr>request_json :=
       Inr (JObj [(''imageBase64'', JStr ''''), (''language'', JStr ''en'')])\<rparr>"
  have h: "lacks_image ?env" by (simp add: lacks_image_def)
  from C6_no_image_no_upstream_call [OF h] have
    "snd (POST ?env) = []"
    "fst (POST ?env) = Inr \<lparr>status = 400, body = JObj [(''error'', JStr ''No image provided'')]\<rparr>"
    by simp_all
  with h show ?thesis by (simp add: prod_eq_iff)
qed

text \<open>
  C7. A request that carries an image while \<^verbatim>\<open>GROQ_API_KEY\<close> is not set (or is
  empty) is answered 500 with the configuration error, and no upstream call is made.
\<close>

theorem C7_no_credential_500:
  assumes "request_json env = Inr b" and "field b ''imageBase64'' = Some (JStr img)"
    and "img \<noteq> []"
    and "GROQ_API_KEY env = None \<or> GROQ_API_KEY env = Some []"
  shows "POST env = (Inr \<lparr>status = 500, body = JObj [(''error'', JStr ''Groq API key not configured'')]\<rparr>, [])"
proof -
  obtain kvs where b: "b = JObj kvs" using assms(2) field_Some_obj by blast
  have "destructure b = Inr (Some (JStr img), language_of b)"
    using assms(2) b by (simp add: destructure_def get_prop_def)
  then show ?thesis
    unfolding POST_def using assms(1,3,4)
    by (auto simp: and_then_pure resolve_def try_catch_Inr NextResponse_json_def truthy_opt_def)
qed

theorem C7_witness:
  "POST (example_env\<lparr>GROQ_API_KEY := None\<rparr>)
     = (Inr \<lparr>status = 500, body = JObj [(''error'', JStr ''Groq API key not configured'')]\<rparr>, [])"
proof -
  have h1: "request_json (example_env\<lparr>GROQ_API_KEY := None\<rparr>) = Inr example_body"
    by (simp add: example_env_def)
  have h3: "''data:image/png;base64,iVBORw0KGgo='' \<noteq> []" by simp
  have h4: "GROQ_API_KEY (example_env\<lparr>GROQ_API_KEY := None\<rparr>) = None \<or>
            GROQ_API_KEY (example_env\<lparr>GROQ_API_KEY := None\<rparr>) = Some []" by simp
  from C7_no_credential_500 [OF h1 example_request(1) h3 h4] show ?thesis .
qed

text \<open>
  C8 as stated fails on the success path: the vision reply carries the text
  \<^verbatim>\<open>"high"\<close> as its confidence, passes the structural check, and the 200 answer hands
  that text on.
\<close>

theorem C8_counterexample:
  "POST (example_env\<lparr>vision_fetch := replied 200 (completion (JStr vague_text))\<rparr>) =
     (Inr \<lparr>status = 200,
           body = JObj [(''disease'', JStr ''Rust''), (''confidence'', JStr ''high''),
                        (''symptoms'', JArr [JStr ''pustules'']),
                        (''aiGeneratedTreatment'', JStr ''Spray a copper fungicide.''),
                        (''analysisTimestamp'', JStr ''2026-01-01T00:00:00.000Z''),
                        (''language'', JStr ''en'')]\<rparr>,
      [VisionCall, TreatmentCall ''English'']) \<and>
   \<not> is_number
       (field (JObj [(''disease'', JStr ''Rust''), (''confidence'', JStr ''high''),
                     (''symptoms'', JArr [JStr ''pustules'']),
                     (''aiGeneratedTreatment'', JStr ''Spray a copper fungicide.''),
                     (''analysisTimestamp'', JStr ''2026-01-01T00:00:00.000Z''),
                     (''language'', JStr ''en'')]) ''confidence'')"
proof -
  let ?env = "example_env\<lparr>vision_fetch := replied 200 (completion (JStr vague_text))\<rparr>"
  have chk: "check_structure vague = Inr vague"
    by (rule check_structure_pass) (simp_all add: vague_def truthy_opt_def is_array_def)
  have post: "POST ?env =
        (Inr (NextResponse_json
                (enhancedAnalysis ?env vague (Some (JStr ''Spray a copper fungicide.''))
                   (language_of example_body)) 200),
         [VisionCall, TreatmentCall (language_name (language_of example_body))])"
    by (rule POST_merged [where img = "JStr ''data:image/png;base64,iVBORw0KGgo=''"
              and k = "''gsk_example''" and s = "vague_text" and code = 200])
       (simp_all add: example_env_fields example_request example_parse_texts texts_nonempty chk
          example_prompts)
  have e: "enhancedAnalysis ?env vague (Some (JStr ''Spray a copper fungicide.'')) (JStr ''en'') =
       JObj [(''disease'', JStr ''Rust''), (''confidence'', JStr ''high''),
             (''symptoms'', JArr [JStr ''pustules'']),
             (''aiGeneratedTreatment'', JStr ''Spray a copper fungicide.''),
             (''analysisTimestamp'', JStr ''2026-01-01T00:00:00.000Z''),
             (''language'', JStr ''en'')]"
    by (simp add: enhancedAnalysis_def vague_def or_else_def example_env_fields)
  show ?thesis
    unfolding post example_request(2) e
    by (simp add: NextResponse_json_def language_name_def is_number_def)
qed

text \<open>
  C8, as the code has it. For a request with an image and a configured key: whenever the
  guidance call was made, the \<^verbatim>\<open>confidence\<close> of the body is a number fixed by the
  tier, 0 on the hardcoded tier (the guidance call raised) and 0.6 on the guidance tier (it
  completed); otherwise the body's \<^verbatim>\<open>confidence\<close> is whatever the parsed vision reply
  has under that key, as \<^verbatim>\<open>JSON.stringify\<close> writes it, for the handler never inspects
  it.
\<close>

theorem C8_confidence_by_tier:
  assumes "request_json env = Inr b" and "field b ''imageBase64'' = Some (JStr img)"
    and "img \<noteq> []"
    and "GROQ_API_KEY env = Some k" and "k \<noteq> []"
  shows "\<exists>p calls. POST env = (Inr \<lparr>status = 200, body = p\<rparr>, calls) \<and>
           (if \<exists>l. GuidanceCall l \<in> set calls
            then field p ''confidence'' =
                   Some (JNum (if guidance_call_raises env then 0 else 6 / 10))
            else \<exists>r d answer analysis.
                   vision_fetch env = Inr r \<and> json_body r = Inr d \<and>
                   choice_content d = Inr (Some answer) \<and>
                   parse_analysis env answer = Inr analysis \<and>
                   field p ''confidence'' = map_option serialise (field analysis ''confidence''))"
proof -
  let ?lang = "language_of b"
  have t: "truthy (JStr img)" using assms(3) by simp
  have post: "POST env = try_catch (vision_tier env k ?lang)
                           (\<lambda>groqError. getFallbackAnalysis env k ?lang)"
    using assms(1,2) t assms(4,5) by (rule POST_reaches_analysis)
  obtain p where fb: "getFallbackAnalysis env k ?lang =
       (Inr \<lparr>status = 200, body = p\<rparr>, [GuidanceCall (language_name ?lang)])"
    and p: "if guidance_call_raises env then p = unavailable_payload env
            else \<exists>c. p = serialise (guidance_payload env ?lang c)"
    using fallback_by_tier [of env k ?lang] by blast
  have conf: "field p ''confidence'' = Some (JNum (if guidance_call_raises env then 0 else 6 / 10))"
    using p by (auto simp: unavailable_fields serialised_guidance_fields split: if_splits)
  consider
    (fallback) pre where "POST env = (Inr \<lparr>status = 200, body = p\<rparr>,
                                     pre @ [GuidanceCall (language_name ?lang)])"
  | (merged) r d answer analysis tc where
      "vision_fetch env = Inr r" "json_body r = Inr d" "choice_content d = Inr (Some answer)"
      "parse_analysis env answer = Inr analysis" "check_structure analysis = Inr analysis"
      "POST env = (Inr (NextResponse_json (enhancedAnalysis env analysis tc ?lang) 200),
                   [VisionCall, TreatmentCall (language_name ?lang)])"
    using analysis_cases [of env k ?lang, folded post] unfolding fb by auto
  then show ?thesis
  proof cases
    case fallback
    with conf show ?thesis by auto
  next
    case merged
    then obtain kvs where kvs: "analysis = JObj kvs"
      using check_structure_Inr by blast
    have "field (serialise (enhancedAnalysis env analysis tc ?lang)) ''confidence''
            = map_option serialise (field analysis ''confidence'')"
      unfolding kvs by (simp add: field_serialise field_enhanced)
    with merged show ?thesis
      by (auto simp: NextResponse_json_def)
  qed
qed

theorem C8_witness:
  "\<exists>p calls. POST example_env = (Inr \<lparr>status = 200, body = p\<rparr>, calls) \<and>
     field p ''confidence'' = Some (JNum (9 / 10))"
proof -
  have h3: "''data:image/png;base64,iVBORw0KGgo='' \<noteq> []" by simp
  have h5: "''gsk_example'' \<noteq> []" by simp
  have chk: "check_structure leaf_blight = Inr leaf_blight"
    by (rule check_structure_pass) (simp_all add: leaf_blight_def truthy_opt_def is_array_def)
  have calls: "snd (POST example_env) = [VisionCall, TreatmentCall ''English'']"
    using POST_merged [where env = example_env and b = example_body
              and img = "JStr ''data:image/png;base64,iVBORw0KGgo=''"
              and k = "''gsk_example''" and s = leaf_blight_text and a = leaf_blight and code = 200
              and tc = "JStr ''Spray a copper fungicide.''"]
    by (simp add: example_env_fields example_request example_parse_texts texts_nonempty chk
          language_name_def example_prompts)
  from C8_confidence_by_tier [OF example_env_fields(1) example_request(1) h3 example_env_fields(2) h5]
  obtain p cs where p: "POST example_env = (Inr \<lparr>status = 200, body = p\<rparr>, cs)"
    and c: "if \<exists>l. GuidanceCall l \<in> set cs
            then field p ''confidence'' =
                   Some (JNum (if guidance_call_raises example_env then 0 else 6 / 10))
            else \<exists>r d answer analysis.
                   vision_fetch example_env = Inr r \<and> json_body r = Inr d \<and>
                   choice_content d = Inr (Some answer) \<and>
                   parse_analysis example_env answer = Inr analysis \<and>
                   field p ''confidence'' = map_option serialise (field analysis ''confidence'')"
    by blast
  from p calls have "cs = [VisionCall, TreatmentCall ''English'']" by simp
  with c obtain r d answer analysis where
    "vision_fetch example_env = Inr r" "json_body r = Inr d"
    "choice_content d = Inr (Some answer)" "parse_analysis example_env answer = Inr analysis"
    "field p ''confidence'' = map_option serialise (field analysis ''confidence'')"
    by auto
  then have "field p ''confidence'' = map_option serialise (field leaf_blight ''confidence'')"
    by (auto simp: example_env_fields replied_def choice_content_completion
          parse_analysis_direct [of example_env leaf_blight_text leaf_blight] example_parse_texts)
  then have "field p ''confidence'' = Some (JNum (9 / 10))" by (simp add: leaf_blight_def)
  with p show ?thesis by blast
qed

section \<open>Running one chat submission\<close>

lemma try_finally_set: "try_finally (r, l) (perform ev (Inr ())) = (r, l @ [ev])"
  by (simp add: try_finally_def perform_def)

lemma perform_fst_snd: "fst (perform ev r) = r" "snd (perform ev r) = [ev]"
  by (simp_all add: perform_def)

lemma speakText_cases:
  "speakText env t = (Inr (), []) \<or>
   speakText env t = (Inr (), [SpeechCancel, SpeechSpeak t (getLanguageCode (ui_locale env))])"
  by (cases t; cases "utterance_failure env")
     (simp_all add: speakText_def and_then_pure and_then_perform try_catch_Inl try_catch_Inr
        resolve_def throw_def)

text \<open>
  What a submission that passes the guard does, in order: the user turn, the cleared input,
  the busy flag, the request, one assistant turn, possibly the two speech calls, and the
  busy flag cleared.
\<close>

lemma submitMessage_shape:
  assumes "trim messageText \<noteq> []" and "\<not> isLoading st"
  shows "\<exists>a sp. submitMessage env st messageText =
           (Inr (),
            [SetMessages \<lparr>message_id = toString_nat (now_submit env), role = User,
                          content = JStr messageText, timestamp = now_submit env\<rparr>,
             SetInput [], SetIsLoading True,
             FetchGroqQuery messageText (ui_locale env),
             SetMessages a] @ sp @ [SetIsLoading False]) \<and>
         role a = Assistant \<and>
         (chat_call_failed env \<longrightarrow> content a = JStr ''Sorry, there was an error. Please try again.'') \<and>
         (sp = [] \<or> (\<exists>t c. sp = [SpeechCancel, SpeechSpeak t c]))"
proof (cases "groq_query_fetch env")
  case (Inl e)
  with assms show ?thesis
    by (simp add: submitMessage_def and_then_perform and_then_pure try_catch_Inl
          try_finally_set perform_fst_snd chat_call_failed_def)
next
  case (Inr r)
  note fetch = this
  show ?thesis
  proof (cases "ok r")
    case False
    with assms fetch show ?thesis
      by (simp add: submitMessage_def and_then_perform and_then_pure try_catch_Inl
            try_finally_set perform_fst_snd chat_call_failed_def throw_def)
  next
    case True
    note okr = this
    then have nf: "\<not> chat_call_failed env" using fetch by (simp add: chat_call_failed_def)
    show ?thesis
    proof (cases "json_body r")
      case (Inl e)
      with assms fetch okr show ?thesis
        by (simp add: submitMessage_def and_then_perform and_then_pure try_catch_Inl
              try_finally_set perform_fst_snd nf)
    next
      case (Inr data)
      note body = this
      show ?thesis
      proof (cases "get_prop data ''response''")
        case (Inl e)
        with assms fetch okr body show ?thesis
          by (simp add: submitMessage_def and_then_perform and_then_pure try_catch_Inl
                try_finally_set perform_fst_snd nf)
      next
        case (Inr data_response)
        note resp = this
        show ?thesis
        proof (cases "\<not> isMuted st \<and> truthy_opt data_response")
          case False
          then have "(if \<not> isMuted st \<and> truthy_opt data_response
                      then speakText env (or_else data_response JNull)
                      else resolve ()) = (Inr (), [])"
            by (auto simp: resolve_def)
          with assms fetch okr body resp show ?thesis
            by (simp add: submitMessage_def and_then_perform and_then_pure try_catch_Inr
                  try_finally_set nf)
        next
          case True
          from speakText_cases [of env "or_else data_response JNull"]
          show ?thesis
          proof
            assume "speakText env (or_else data_response JNull) = (Inr (), [])"
            with True assms fetch okr body resp show ?thesis
              by (simp add: submitMessage_def and_then_perform and_then_pure try_catch_Inr
                    try_finally_set nf)
          next
            assume "speakText env (or_else data_response JNull) =
                      (Inr (), [SpeechCancel,
                                SpeechSpeak (or_else data_response JNull) (getLanguageCode (ui_locale env))])"
            with True assms fetch okr body resp show ?thesis
              by (simp add: submitMessage_def and_then_perform and_then_pure try_catch_Inr
                    try_finally_set nf)
          qed
        qed
      qed
    qed
  qed
qed

lemma messages_apply_actions: "messages (apply_actions st acts) = messages st @ appended acts"
proof (induction acts arbitrary: st)
  case Nil
  then show ?case by (simp add: apply_actions_def)
next
  case (Cons a acts)
  have "messages (apply_actions (apply_action st a) acts)
          = messages (apply_action st a) @ appended acts"
    by (rule Cons.IH)
  then show ?case
    by (cases a) (simp_all add: apply_actions_def)
qed

lemma appended_speech: "sp = [] \<or> (\<exists>t c. sp = [SpeechCancel, SpeechSpeak t c]) \<Longrightarrow> appended (sp @ as) = appended as"
  by auto

text \<open>The guard of line 359, for the render the callback belongs to.\<close>

lemma submitMessage_guard:
  assumes "trim messageText = [] \<or> isLoading st"
  shows "submitMessage env st messageText = (Inr (), [])"
  using assms by (auto simp: submitMessage_def resolve_def)

section \<open>Properties of the chat submission flow\<close>

text \<open>
  What one run of a render's \<^verbatim>\<open>submitMessage\<close> does when that render has no request
  in flight and the text is not blank: it never throws, and what it appends to the
  transcript is exactly two turns, a user turn with the submitted text and then an
  assistant turn, which is the fixed apology when the request failed in transport or was
  answered with a status outside 200--299.
\<close>

lemma submitMessage_turns:
  assumes "trim messageText \<noteq> []" and "\<not> isLoading st"
  shows "\<exists>u a acts. submitMessage env st messageText = (Inr (), acts) \<and>
           appended acts = [u, a] \<and>
           messages (apply_actions st acts) = messages st @ [u, a] \<and>
           role u = User \<and> content u = JStr messageText \<and>
           role a = Assistant \<and>
           (chat_call_failed env \<longrightarrow>
              content a = JStr ''Sorry, there was an error. Please try again.'')"
proof -
  obtain a sp where run: "submitMessage env st messageText =
           (Inr (),
            [SetMessages \<lparr>message_id = toString_nat (now_submit env), role = User,
                          content = JStr messageText, timestamp = now_submit env\<rparr>,
             SetInput [], SetIsLoading True,
             FetchGroqQuery messageText (ui_locale env),
             SetMessages a] @ sp @ [SetIsLoading False])"
    and a: "role a = Assistant"
      "chat_call_failed env \<longrightarrow> content a = JStr ''Sorry, there was an error. Please try again.''"
    and sp: "sp = [] \<or> (\<exists>t c. sp = [SpeechCancel, SpeechSpeak t c])"
    using submitMessage_shape [OF assms] by blast
  let ?u = "\<lparr>message_id = toString_nat (now_submit env), role = User,
              content = JStr messageText, timestamp = now_submit env\<rparr>"
  let ?acts = "[SetMessages ?u, SetInput [], SetIsLoading True,
            FetchGroqQuery messageText (ui_locale env), SetMessages a] @ sp @ [SetIsLoading False]"
  have app: "appended ?acts = [?u, a]"
    using appended_speech [OF sp, of "[SetIsLoading False]"] by simp
  then have "messages (apply_actions st ?acts) = messages st @ [?u, a]"
    by (simp only: messages_apply_actions)
  with run a app show ?thesis by auto
qed

text \<open>
  C9 fails on the code for a submission that comes from speech recognition after the modal
  was closed and opened again during a request. A question is typed and sent; while its
  request is under way the modal, which its parent keeps mounted, is closed and reopened,
  so the effect of lines 269--337 runs again, in a render whose \<^verbatim>\<open>isLoading\<close> is
  \<^verbatim>\<open>true\<close>, and the new \<^verbatim>\<open>recognition.onresult\<close> holds the
  \<^verbatim>\<open>submitMessage\<close> of that render. The reply arrives and no request is in flight any
  more. The recognition then delivers the non-blank "Any rain today?": the handler writes it
  to the input, the \<^verbatim>\<open>submitMessage\<close> it calls still reads \<^verbatim>\<open>isLoading\<close> as
  \<^verbatim>\<open>true\<close> and returns at line 359, and the transcript gains neither a user turn
  nor an assistant turn.
\<close>

theorem C9_voice_result_after_reopen:
  "isLoading in_flight_state \<and> \<not> isLoading settled_state \<and>
   trim ''Any rain today?'' \<noteq> [] \<and>
   onresult example_chat_env in_flight_state ''Any rain today?'' =
     (Inr (), [SetInput ''Any rain today?'', SetIsListening False]) \<and>
   messages (apply_actions settled_state
               (snd (onresult example_chat_env in_flight_state ''Any rain today?'')))
     = messages settled_state"
proof -
  have t1: "trim ''When to water?'' \<noteq> []" by code_simp
  have l1: "\<not> isLoading example_chat_state"
    by (simp add: example_chat_state_def initial_chat_state_def)
  obtain a1 sp1 where run: "submitMessage example_chat_env example_chat_state ''When to water?'' =
           (Inr (),
            [SetMessages \<lparr>message_id = toString_nat (now_submit example_chat_env), role = User,
                          content = JStr ''When to water?'', timestamp = now_submit example_chat_env\<rparr>,
             SetInput [], SetIsLoading True,
             FetchGroqQuery ''When to water?'' (ui_locale example_chat_env),
             SetMessages a1] @ sp1 @ [SetIsLoading False])"
    using submitMessage_shape [OF t1 l1, of example_chat_env] by blast
  then have busy: "isLoading in_flight_state"
    by (simp add: in_flight_state_def handleSendMessage_def example_chat_state_def
          initial_chat_state_def apply_actions_def)
  from run have idle: "\<not> isLoading settled_state"
    by (simp add: settled_state_def handleSendMessage_def example_chat_state_def
          initial_chat_state_def apply_actions_def)
  have t2: "trim ''Any rain today?'' = ''Any rain today?''" by code_simp
  have dropped: "submitMessage example_chat_env in_flight_state ''Any rain today?'' = (Inr (), [])"
    using busy by (simp add: submitMessage_guard)
  have voice: "onresult example_chat_env in_flight_state ''Any rain today?'' =
     (Inr (), [SetInput ''Any rain today?'', SetIsListening False])"
    by (simp add: onresult_def t2 and_then_perform dropped)
  have "appended (snd (onresult example_chat_env in_flight_state ''Any rain today?'')) = []"
    unfolding voice by simp
  then have same: "messages (apply_actions settled_state
               (snd (onresult example_chat_env in_flight_state ''Any rain today?'')))
     = messages settled_state"
    by (simp only: messages_apply_actions) simp
  from busy idle t2 voice same show ?thesis by simp
qed

text \<open>
  C10 fails on the code for a submission that comes from speech recognition. The modal is
  mounted open, a question is typed and sent, and while its request is under way the
  recognition delivers "Any rain today?". The \<^verbatim>\<open>submitMessage\<close> the handler calls is
  the one of the first render, whose \<^verbatim>\<open>isLoading\<close> is \<^verbatim>\<open>false\<close>: it passes the
  guard, issues a second request and appends two more turns.
\<close>

theorem C10_voice_result_while_in_flight:
  "isLoading in_flight_state \<and>
   FetchGroqQuery ''Any rain today?'' ''en''
     \<in> set (snd (onresult example_chat_env initial_chat_state ''Any rain today?'')) \<and>
   length (messages (apply_actions in_flight_state
             (snd (onresult example_chat_env initial_chat_state ''Any rain today?''))))
     = length (messages in_flight_state) + 2"
proof -
  have t1: "trim ''When to water?'' \<noteq> []" by code_simp
  have l1: "\<not> isLoading example_chat_state"
    by (simp add: example_chat_state_def initial_chat_state_def)
  obtain a1 sp1 where "submitMessage example_chat_env example_chat_state ''When to water?'' =
           (Inr (),
            [SetMessages \<lparr>message_id = toString_nat (now_submit example_chat_env), role = User,
                          content = JStr ''When to water?'', timestamp = now_submit example_chat_env\<rparr>,
             SetInput [], SetIsLoading True,
             FetchGroqQuery ''When to water?'' (ui_locale example_chat_env),
             SetMessages a1] @ sp1 @ [SetIsLoading False])"
    using submitMessage_shape [OF t1 l1, of example_chat_env] by blast
  then have busy: "isLoading in_flight_state"
    by (simp add: in_flight_state_def handleSendMessage_def example_chat_state_def
          initial_chat_state_def apply_actions_def)
  have t2: "trim ''Any rain today?'' = ''Any rain today?''" by code_simp
  then have t2': "trim ''Any rain today?'' \<noteq> []" by simp
  have l2: "\<not> isLoading initial_chat_state" by (simp add: initial_chat_state_def)
  obtain a2 sp2 where run: "submitMessage example_chat_env initial_chat_state ''Any rain today?'' =
           (Inr (),
            [SetMessages \<lparr>message_id = toString_nat (now_submit example_chat_env), role = User,
                          content = JStr ''Any rain today?'', timestamp = now_submit example_chat_env\<rparr>,
             SetInput [], SetIsLoading True,
             FetchGroqQuery ''Any rain today?'' (ui_locale example_chat_env),
             SetMessages a2] @ sp2 @ [SetIsLoading False])"
    and sp2: "sp2 = [] \<or> (\<exists>t c. sp2 = [SpeechCancel, SpeechSpeak t c])"
    using submitMessage_shape [OF t2' l2, of example_chat_env] by blast
  have loc: "ui_locale example_chat_env = ''en''" by (simp add: example_chat_env_def)
  have voice: "snd (onresult example_chat_env initial_chat_state ''Any rain today?'') =
      SetInput ''Any rain today?'' # SetIsListening False #
      snd (submitMessage example_chat_env initial_chat_state ''Any rain today?'')"
    by (simp add: onresult_def t2 and_then_perform)
  have sent: "FetchGroqQuery ''Any rain today?'' ''en''
     \<in> set (snd (onresult example_chat_env initial_chat_state ''Any rain today?''))"
    unfolding voice run by (simp add: loc)
  have "appended (snd (onresult example_chat_env initial_chat_state ''Any rain today?'')) =
      [\<lparr>message_id = toString_nat (now_submit example_chat_env), role = User,
        content = JStr ''Any rain today?'', timestamp = now_submit example_chat_env\<rparr>, a2]"
    unfolding voice run using appended_speech [OF sp2, of "[SetIsLoading False]"] by simp
  then have grown: "length (messages (apply_actions in_flight_state
             (snd (onresult example_chat_env initial_chat_state ''Any rain today?''))))
     = length (messages in_flight_state) + 2"
    by (simp only: messages_apply_actions) simp
  from busy sent grown show ?thesis by blast
qed

end
